theory Spec2Isabelle
  imports Main "HOL-Library.Word"
begin

section \<open>The wire format\<close>

text \<open>
  The Go sources never touch bytes themselves: they hand values to \<^verbatim>\<open>encoding/xml\<close>, which
  writes a stream of start tags, character data and end tags, and they are handed elements
  that \<^verbatim>\<open>encoding/xml\<close> has read. The encoder side is modelled by the tokens written so far
  (\<open>render\<close> gives their bytes), the decoder side by the element tree that was read.
  Names are local names; XML namespaces are not used by any tag of the sources.
\<close>

type_synonym Attr = "string \<times> string"

datatype Token = StartTok string "Attr list" | EndTok string | CharTok string

datatype Element = Element string "Attr list" "Content list"
  and Content = Chars string | Child Element

fun el_name :: "Element \<Rightarrow> string" where
  "el_name (Element n as cs) = n"

fun el_attrs :: "Element \<Rightarrow> Attr list" where
  "el_attrs (Element n as cs) = as"

fun el_content :: "Element \<Rightarrow> Content list" where
  "el_content (Element n as cs) = cs"

text \<open>The tokens of a well-formed element, in document order.\<close>

fun tokens_of :: "Element \<Rightarrow> Token list"
  and tokens_of_content :: "Content \<Rightarrow> Token list" where
  "tokens_of (Element n as cs) = StartTok n as # concat (map tokens_of_content cs) @ [EndTok n]"
| "tokens_of_content (Chars s) = [CharTok s]"
| "tokens_of_content (Child e) = tokens_of e"

text \<open>
  \<^verbatim>\<open>xml.EscapeText\<close>: the eight characters it replaces. (It also replaces bytes that are not
  valid UTF-8 or not XML characters by U+FFFD; those are passed through here.)
\<close>

fun escape_char :: "char \<Rightarrow> string" where
  "escape_char c =
     (if c = CHR ''\"'' then ''&#34;''
      else if c = CHR 0x27 then ''&#39;''
      else if c = CHR ''&'' then ''&amp;''
      else if c = CHR ''<'' then ''&lt;''
      else if c = CHR ''>'' then ''&gt;''
      else if c = CHR 0x09 then ''&#x9;''
      else if c = CHR 0x0A then ''&#xA;''
      else if c = CHR 0x0D then ''&#xD;''
      else [c])"

definition EscapeText :: "string \<Rightarrow> string" where
  "EscapeText s = concat (map escape_char s)"

fun render_attr :: "Attr \<Rightarrow> string" where
  "render_attr (k, v) = '' '' @ k @ ''=\"'' @ EscapeText v @ ''\"''"

fun render_token :: "Token \<Rightarrow> string" where
  "render_token (StartTok n as) = ''<'' @ n @ concat (map render_attr as) @ ''>''"
| "render_token (EndTok n) = ''</'' @ n @ ''>''"
| "render_token (CharTok s) = EscapeText s"

definition render :: "Token list \<Rightarrow> string" where
  "render ts = concat (map render_token ts)"

text \<open>
  The character data a scalar target (string, int, bool, float) receives from an element:
  \<^verbatim>\<open>Decoder.unmarshal\<close> appends every direct \<^verbatim>\<open>CharData\<close> token and skips child elements.
\<close>

fun chardata :: "Content list \<Rightarrow> string" where
  "chardata [] = []"
| "chardata (Chars s # cs) = s @ chardata cs"
| "chardata (Child e # cs) = chardata cs"

definition el_text :: "Element \<Rightarrow> string" where
  "el_text e = chardata (el_content e)"

fun attr_value :: "string \<Rightarrow> Attr list \<Rightarrow> string option" where
  "attr_value k [] = None"
| "attr_value k ((k', v) # as) = (if k' = k then Some v else attr_value k as)"

section \<open>Errors\<close>

text \<open>
  \<^verbatim>\<open>ErrUnknownNotification\<close> (package webhooks) with its two methods.
\<close>

datatype ErrUnknownNotification = ErrUnknownNotification string

fun Name :: "ErrUnknownNotification \<Rightarrow> string" where
  "Name (ErrUnknownNotification n) = n"

fun Error :: "ErrUnknownNotification \<Rightarrow> string" where
  "Error (ErrUnknownNotification n) = ''unknown notification: '' @ n"

datatype error =
    ErrSyntax string            \<comment> \<open>\<^verbatim>\<open>strconv.NumError\<close> with \<^verbatim>\<open>ErrSyntax\<close>, and the text\<close>
  | ErrRange string             \<comment> \<open>\<^verbatim>\<open>strconv.NumError\<close> with \<^verbatim>\<open>ErrRange\<close>\<close>
  | UnmarshalError string string  \<comment> \<open>expected element type <a> but have <b>\<close>
  | StartTagNoName              \<comment> \<open>xml: start tag with no name\<close>
  | NotClosed string            \<comment> \<open>xml: T.MarshalXML wrote invalid XML: <a> not closed\<close>
  | AddrError                   \<comment> \<open>\<^verbatim>\<open>net.IP.MarshalText\<close>: invalid IP address\<close>
  | ParseError string           \<comment> \<open>a value the environment's parsers reject\<close>
  | ReadError                   \<comment> \<open>the reader failed\<close>
  | XMLSyntaxError              \<comment> \<open>the payload is not well-formed XML\<close>
  | Unknown ErrUnknownNotification

section \<open>strconv\<close>

text \<open>
  \<^verbatim>\<open>strconv.ParseUint(s, 10, 64)\<close> and \<^verbatim>\<open>strconv.ParseInt(s, 10, 64)\<close> as
  \<^verbatim>\<open>encoding/xml\<close> calls them for an \<^verbatim>\<open>int\<close> target (the \<^verbatim>\<open>go1.7,!go1.9\<close> build the
  NullInt file is tagged for: the text is not trimmed, and the empty text is a syntax
  error). Go's \<^verbatim>\<open>int\<close> is taken to be 64 bits wide; it is modelled by \<open>int\<close>, the range
  being what \<open>ParseInt\<close> enforces. No arithmetic is done on these values by the sources.
\<close>

definition digit_val :: "char \<Rightarrow> nat option" where
  "digit_val c = (let k = (of_char c :: nat) in if 48 \<le> k \<and> k \<le> 57 then Some (k - 48) else None)"

fun parse_digits :: "string \<Rightarrow> nat \<Rightarrow> string \<Rightarrow> error + nat" where
  "parse_digits s0 n [] = Inr n"
| "parse_digits s0 n (c # cs) =
     (case digit_val c of
        None \<Rightarrow> Inl (ErrSyntax s0)
      | Some v \<Rightarrow>
          (let n1 = n * 10 + v in
           if n1 \<ge> 2 ^ 64 then Inl (ErrRange s0) else parse_digits s0 n1 cs))"

definition ParseUint :: "string \<Rightarrow> error + nat" where
  "ParseUint s = (if s = [] then Inl (ErrSyntax s) else parse_digits s 0 s)"

definition ParseInt :: "string \<Rightarrow> error + int" where
  "ParseInt s0 =
     (if s0 = [] then Inl (ErrSyntax s0)
      else
        (let neg = (hd s0 = CHR ''-'');
             s = (if hd s0 = CHR ''+'' \<or> hd s0 = CHR ''-'' then tl s0 else s0)
         in case ParseUint s of
              Inl (ErrRange x) \<Rightarrow> Inl (ErrRange s0)
            | Inl e \<Rightarrow> Inl (ErrSyntax s0)
            | Inr un \<Rightarrow>
                if \<not> neg \<and> un \<ge> 2 ^ 63 then Inl (ErrRange s0)
                else if neg \<and> un > 2 ^ 63 then Inl (ErrRange s0)
                else Inr (if neg then - int un else int un)))"

text \<open>\<^verbatim>\<open>strconv.Itoa\<close>: decimal digits, with a minus sign for a negative value.\<close>

definition digit_char :: "nat \<Rightarrow> char" where
  "digit_char d =
     (if d = 0 then CHR ''0'' else if d = 1 then CHR ''1'' else if d = 2 then CHR ''2''
      else if d = 3 then CHR ''3'' else if d = 4 then CHR ''4'' else if d = 5 then CHR ''5''
      else if d = 6 then CHR ''6'' else if d = 7 then CHR ''7'' else if d = 8 then CHR ''8''
      else CHR ''9'')"

fun FormatUint :: "nat \<Rightarrow> string" where
  "FormatUint n =
     (if n < 10 then [digit_char n]
      else FormatUint (n div 10) @ [digit_char (n mod 10)])"

declare FormatUint.simps [simp del]

definition Itoa :: "int \<Rightarrow> string" where
  "Itoa i = (if i < 0 then CHR ''-'' # FormatUint (nat (- i)) else FormatUint (nat i))"

section \<open>The encoder\<close>

text \<open>
  An \<^verbatim>\<open>xml.Encoder\<close> is the tokens it has written. A writing step returns the encoder and
  the error, if any; what was written before a failure stays written. The stack of open
  tags is left out: every step below closes the tags it opened, unless it fails.
\<close>

type_synonym Encoder = "Token list"

type_synonym enc = "Encoder \<Rightarrow> Encoder \<times> error option"

record StartElement =
  se_Name :: string
  se_Attr :: "Attr list"

definition named :: "string \<Rightarrow> StartElement" where
  "named n = \<lparr>se_Name = n, se_Attr = []\<rparr>"

definition writeStart :: "StartElement \<Rightarrow> enc" where
  "writeStart start e =
     (if se_Name start = [] then (e, Some StartTagNoName)
      else (e @ [StartTok (se_Name start) (filter (\<lambda>a. fst a \<noteq> []) (se_Attr start))], None))"

definition writeEnd :: "string \<Rightarrow> enc" where
  "writeEnd n e = (e @ [EndTok n], None)"

definition writeText :: "string \<Rightarrow> enc" where
  "writeText s e = (e @ [CharTok s], None)"

definition andThen :: "enc \<Rightarrow> enc \<Rightarrow> enc" where
  "andThen f g e = (case f e of (e', None) \<Rightarrow> g e' | (e', Some err) \<Rightarrow> (e', Some err))"

fun steps :: "enc list \<Rightarrow> enc" where
  "steps [] e = (e, None)"
| "steps (f # fs) e = andThen f (steps fs) e"

definition skip :: enc where
  "skip e = (e, None)"

text \<open>\<^verbatim>\<open>Encoder.EncodeElement(v, start)\<close> for a value of a simple kind, given its text.\<close>

definition EncodeElement_text :: "string \<Rightarrow> StartElement \<Rightarrow> enc" where
  "EncodeElement_text txt start =
     steps [writeStart start, writeText txt, writeEnd (se_Name start)]"

definition EncodeElement_int :: "int \<Rightarrow> StartElement \<Rightarrow> enc" where
  "EncodeElement_int v start = EncodeElement_text (Itoa v) start"



section \<open>NullInt\<close>

record NullInt =
  ni_Int :: int
  ni_Valid :: bool

definition NullInt_zero :: NullInt where
  "NullInt_zero = \<lparr>ni_Int = 0, ni_Valid = False\<rparr>"

definition NewInt :: "int \<Rightarrow> NullInt" where
  "NewInt i = \<lparr>ni_Int = i, ni_Valid = True\<rparr>"

text \<open>\<^verbatim>\<open>d.DecodeElement(&v, &start)\<close> with \<^verbatim>\<open>v\<close> an \<^verbatim>\<open>int\<close>.\<close>

definition DecodeElement_int :: "Element \<Rightarrow> error + int" where
  "DecodeElement_int el = ParseInt (el_text el)"

text \<open>
  \<^verbatim>\<open>NullInt.UnmarshalXML\<close>: the receiver after the call, and the error returned. The error
  of \<^verbatim>\<open>DecodeElement\<close> is dropped: the function ends in \<^verbatim>\<open>return nil\<close> on both paths.
\<close>

definition NullInt_UnmarshalXML :: "NullInt \<Rightarrow> Element \<Rightarrow> NullInt \<times> error option" where
  "NullInt_UnmarshalXML n el =
     (case DecodeElement_int el of
        Inr v \<Rightarrow> (\<lparr>ni_Int = v, ni_Valid = True\<rparr>, None)
      | Inl err \<Rightarrow> (n, None))"

text \<open>
  \<^verbatim>\<open>NullInt.MarshalXML\<close>: the result of \<^verbatim>\<open>e.EncodeElement\<close> is not looked at.
\<close>

definition NullInt_MarshalXML :: "NullInt \<Rightarrow> StartElement \<Rightarrow> enc" where
  "NullInt_MarshalXML n start e =
     (if ni_Valid n then (fst (EncodeElement_int (ni_Int n) start e), None)
      else (e, None))"

definition NullInt_MarshalJSON :: "NullInt \<Rightarrow> string \<times> error option" where
  "NullInt_MarshalJSON n = (if ni_Valid n then (Itoa (ni_Int n), None) else (''null'', None))"

section \<open>What the sources call but do not contain\<close>

text \<open>
  A \<^verbatim>\<open>time.Time\<close> is an instant: seconds and nanoseconds, and the name of its location
  (no monotonic clock reading: the times of this program are parsed or built, never
  read from the clock). \<^verbatim>\<open>Time.Before\<close> compares the instants.
\<close>

record Time =
  t_sec :: int
  t_nsec :: int
  t_loc :: string

definition Before :: "Time \<Rightarrow> Time \<Rightarrow> bool" where
  "Before t u = (t_sec t < t_sec u \<or> t_sec t = t_sec u \<and> t_nsec t < t_nsec u)"

definition Time_zero :: Time where
  "Time_zero = \<lparr>t_sec = 0, t_nsec = 0, t_loc = ''UTC''\<rparr>"

text \<open>A \<^verbatim>\<open>float64\<close> is its 64 bits; \<^verbatim>\<open>v.Float() == 0\<close> holds of both zeros.\<close>

type_synonym float64 = "64 word"

definition float_is_zero :: "float64 \<Rightarrow> bool" where
  "float_is_zero f = (f = 0 \<or> f = 0x8000000000000000)"

type_synonym IP = "8 word list"

text \<open>
  The formatting and parsing functions of the Go library that the codec reaches and
  whose results no statement below depends on are parameters of the model.
\<close>

record Env =
  time_Format :: "Time \<Rightarrow> string"            \<comment> \<open>\<^verbatim>\<open>t.Format(DateTimeFormat)\<close>\<close>
  time_Parse :: "string \<Rightarrow> error + Time"     \<comment> \<open>\<^verbatim>\<open>time.Parse(DateTimeFormat, s)\<close>\<close>
  FormatFloat :: "float64 \<Rightarrow> string"          \<comment> \<open>\<^verbatim>\<open>strconv.FormatFloat(f, 'g', -1, 64)\<close>\<close>
  ParseFloat :: "string \<Rightarrow> error + float64"  \<comment> \<open>\<^verbatim>\<open>strconv.ParseFloat(s, 64)\<close>\<close>
  IP_String :: "IP \<Rightarrow> string"                 \<comment> \<open>\<^verbatim>\<open>net.IP.String\<close> of 4 or 16 bytes\<close>
  href_id :: "string \<Rightarrow> string"              \<comment> \<open>the identifier an href ends in\<close>


text \<open>\<^verbatim>\<open>strconv.ParseBool\<close> and \<^verbatim>\<open>strconv.FormatBool\<close>.\<close>

definition ParseBool :: "string \<Rightarrow> error + bool" where
  "ParseBool s =
     (if s \<in> set [''1'', ''t'', ''T'', ''TRUE'', ''true'', ''True''] then Inr True
      else if s \<in> set [''0'', ''f'', ''F'', ''FALSE'', ''false'', ''False''] then Inr False
      else Inl (ErrSyntax s))"

definition FormatBool :: "bool \<Rightarrow> string" where
  "FormatBool b = (if b then ''true'' else ''false'')"

subsection \<open>NullTime and NullBool\<close>

text \<open>
  Modelled from the spec: the declarations and the XML methods of \<^verbatim>\<open>NullTime\<close> and
  \<^verbatim>\<open>NullBool\<close> (package recurly) are not among the sources. Section 3 and 4.1 of the
  specification: a nullable value is a value and a flag; the decoder fails only on
  malformed content, and an element that is present, even empty, decodes to a set value;
  the encoder emits the element with the value's text iff the flag is set. That the
  timestamp of a \<^verbatim>\<open>NullTime\<close> is a pointer, nil when unset, is read off
  \<^verbatim>\<open>Transactions.Less\<close>, which dereferences it.
\<close>

record NullTime =
  nt_Time :: "Time option"

definition NullTime_zero :: NullTime where
  "NullTime_zero = \<lparr>nt_Time = None\<rparr>"

definition NewTime :: "Time \<Rightarrow> NullTime" where
  "NewTime t = \<lparr>nt_Time = Some t\<rparr>"

definition NullTime_UnmarshalXML :: "Env \<Rightarrow> NullTime \<Rightarrow> Element \<Rightarrow> NullTime \<times> error option" where
  "NullTime_UnmarshalXML env n el =
     (if el_text el = [] then (NewTime Time_zero, None)
      else case time_Parse env (el_text el) of
             Inl err \<Rightarrow> (n, Some err)
           | Inr t \<Rightarrow> (NewTime t, None))"

definition NullTime_MarshalXML :: "Env \<Rightarrow> NullTime \<Rightarrow> StartElement \<Rightarrow> enc" where
  "NullTime_MarshalXML env n start e =
     (case nt_Time n of
        Some t \<Rightarrow> (fst (EncodeElement_text (time_Format env t) start e), None)
      | None \<Rightarrow> (e, None))"

record NullBool =
  nb_Bool :: bool
  nb_Valid :: bool

definition NullBool_zero :: NullBool where
  "NullBool_zero = \<lparr>nb_Bool = False, nb_Valid = False\<rparr>"

definition NewBool :: "bool \<Rightarrow> NullBool" where
  "NewBool b = \<lparr>nb_Bool = b, nb_Valid = True\<rparr>"

definition NullBool_UnmarshalXML :: "NullBool \<Rightarrow> Element \<Rightarrow> NullBool \<times> error option" where
  "NullBool_UnmarshalXML n el =
     (if el_text el = [] then (NewBool False, None)
      else case ParseBool (el_text el) of
             Inl err \<Rightarrow> (n, Some err)
           | Inr b \<Rightarrow> (NewBool b, None))"


subsection \<open>hrefString and hrefInt\<close>

text \<open>
  Modelled from the spec: \<^verbatim>\<open>hrefString\<close> and \<^verbatim>\<open>hrefInt\<close> (package recurly) are not among
  the sources. Section 4.2 of the specification: the element is either a link (the
  identifier is taken from its href attribute when the body is empty) or carries inline
  text (the text is used); inline text takes precedence; with neither, the zero value.
\<close>

definition hrefString_UnmarshalXML :: "Env \<Rightarrow> string \<Rightarrow> Element \<Rightarrow> string \<times> error option" where
  "hrefString_UnmarshalXML env h el =
     (if el_text el \<noteq> [] then (el_text el, None)
      else case attr_value ''href'' (el_attrs el) of
             Some ref \<Rightarrow> (href_id env ref, None)
           | None \<Rightarrow> ([], None))"

definition hrefInt_UnmarshalXML :: "Env \<Rightarrow> int \<Rightarrow> Element \<Rightarrow> int \<times> error option" where
  "hrefInt_UnmarshalXML env h el =
     (let txt = (if el_text el \<noteq> [] then el_text el
                 else case attr_value ''href'' (el_attrs el) of
                        Some ref \<Rightarrow> href_id env ref
                      | None \<Rightarrow> [])
      in if txt = [] then (0, None)
         else case ParseInt txt of Inl err \<Rightarrow> (h, Some err) | Inr v \<Rightarrow> (v, None))"

subsection \<open>Account\<close>

text \<open>
  Modelled from the spec: the declaration of \<^verbatim>\<open>Account\<close> (package recurly) is not among
  the sources. The specification and the encoding tests of \<^verbatim>\<open>NewSubscription\<close> name its
  element, \<^verbatim>\<open><account>\<close>, and its account code, written as \<^verbatim>\<open><account_code>\<close> when it
  is not empty; the other fields of the declaration are taken to be unset.
\<close>

record Account =
  ac_Code :: string

definition Account_zero :: Account where
  "Account_zero = \<lparr>ac_Code = []\<rparr>"

section \<open>Encoding struct fields\<close>

text \<open>
  What \<^verbatim>\<open>encoding/xml\<close> writes for a struct is decided by the tags of its fields, in the
  order of the declaration. One step per kind of field:
  an element with children; a string, an int, a bool or a float with or without
  \<^verbatim>\<open>omitempty\<close> (left out when the value is the zero value); a value with a
  \<^verbatim>\<open>MarshalXML\<close> method, for which \<^verbatim>\<open>omitempty\<close> has no effect (a struct is never empty)
  and whose call through \<open>marshalInterface\<close> is the call itself, since the methods of the
  nullable types return nil and leave no tag open (lemma \<open>marshalInterface_nullable\<close>);
  a slice under a parent path \<^verbatim>\<open>a>b\<close>, whose parent element is opened for every value that
  is not a nil pointer, before \<^verbatim>\<open>omitempty\<close> is looked at; a pointer, left out when nil.
\<close>

definition elem :: "string \<Rightarrow> enc list \<Rightarrow> enc" where
  "elem n body = steps (writeStart (named n) # body @ [writeEnd n])"

definition string_field :: "string \<Rightarrow> string \<Rightarrow> enc" where
  "string_field n s = EncodeElement_text s (named n)"

definition string_omitempty :: "string \<Rightarrow> string \<Rightarrow> enc" where
  "string_omitempty n s = (if s = [] then skip else string_field n s)"

definition int_field :: "string \<Rightarrow> int \<Rightarrow> enc" where
  "int_field n i = EncodeElement_int i (named n)"

definition int_omitempty :: "string \<Rightarrow> int \<Rightarrow> enc" where
  "int_omitempty n i = (if i = 0 then skip else int_field n i)"

definition bool_omitempty :: "string \<Rightarrow> bool \<Rightarrow> enc" where
  "bool_omitempty n b = (if \<not> b then skip else string_field n (FormatBool b))"

definition float_omitempty :: "Env \<Rightarrow> string \<Rightarrow> float64 \<Rightarrow> enc" where
  "float_omitempty env n f = (if float_is_zero f then skip else string_field n (FormatFloat env f))"


definition encode_Account :: "Account \<Rightarrow> enc" where
  "encode_Account a = elem ''account'' [string_omitempty ''account_code'' (ac_Code a)]"


section \<open>subscriptions.go\<close>

record NestedPlan =
  np_Code :: string
  np_Name :: string

record SubscriptionAddOn =
  ao_XMLName :: string
  ao_Type :: string
  ao_Code :: string
  ao_UnitAmountInCents :: int
  ao_Quantity :: int

record PendingSubscription =
  ps_XMLName :: string
  ps_Plan :: NestedPlan
  ps_Quantity :: int
  ps_Price :: int
  ps_SubscriptionAddOns :: "SubscriptionAddOn list"

record Subscription =
  s_XMLName :: string
  s_Plan :: NestedPlan
  s_AccountCode :: string
  s_InvoiceNumber :: int
  s_UUID :: string
  s_State :: string
  s_UnitAmountInCents :: int
  s_Currency :: string
  s_Quantity :: int
  s_TotalAmountInCents :: int
  s_ActivatedAt :: NullTime
  s_CanceledAt :: NullTime
  s_ExpiresAt :: NullTime
  s_CurrentPeriodStartedAt :: NullTime
  s_CurrentPeriodEndsAt :: NullTime
  s_TrialStartedAt :: NullTime
  s_TrialEndsAt :: NullTime
  s_TaxInCents :: int
  s_TaxType :: string
  s_TaxRegion :: string
  s_TaxRate :: float64
  s_PONumber :: string
  s_NetTerms :: NullInt
  s_SubscriptionAddOns :: "SubscriptionAddOn list"
  s_PendingSubscription :: "PendingSubscription option"

record NewSubscription =
  ns_XMLName :: string
  ns_PlanCode :: string
  ns_Account :: Account
  ns_SubscriptionAddOns :: "SubscriptionAddOn list option"
  ns_CouponCode :: string
  ns_UnitAmountInCents :: int
  ns_Currency :: string
  ns_Quantity :: int
  ns_TrialEndsAt :: NullTime
  ns_StartsAt :: NullTime
  ns_TotalBillingCycles :: int
  ns_FirstRenewalDate :: NullTime
  ns_CollectionMethod :: string
  ns_NetTerms :: NullInt
  ns_PONumber :: string
  ns_Bulk :: bool
  ns_TermsAndConditions :: string
  ns_CustomerNotes :: string
  ns_VATReverseChargeNotes :: string
  ns_BankAccountAuthorizedAt :: NullTime

record UpdateSubscription =
  us_XMLName :: string
  us_Timeframe :: string
  us_PlanCode :: string
  us_Quantity :: int
  us_UnitAmountInCents :: int
  us_CollectionMethod :: string
  us_NetTerms :: NullInt
  us_PONumber :: string
  us_SubscriptionAddOns :: "SubscriptionAddOn list option"

text \<open>The zero values of the struct types (\<^verbatim>\<open>T{}\<close>).\<close>

definition NestedPlan_zero :: NestedPlan where
  "NestedPlan_zero = \<lparr>np_Code = [], np_Name = []\<rparr>"

definition SubscriptionAddOn_zero :: SubscriptionAddOn where
  "SubscriptionAddOn_zero =
     \<lparr>ao_XMLName = [], ao_Type = [], ao_Code = [], ao_UnitAmountInCents = 0, ao_Quantity = 0\<rparr>"

definition PendingSubscription_zero :: PendingSubscription where
  "PendingSubscription_zero =
     \<lparr>ps_XMLName = [], ps_Plan = NestedPlan_zero, ps_Quantity = 0, ps_Price = 0,
      ps_SubscriptionAddOns = []\<rparr>"

definition Subscription_zero :: Subscription where
  "Subscription_zero =
     \<lparr>s_XMLName = [], s_Plan = NestedPlan_zero, s_AccountCode = [], s_InvoiceNumber = 0,
      s_UUID = [], s_State = [], s_UnitAmountInCents = 0, s_Currency = [], s_Quantity = 0,
      s_TotalAmountInCents = 0, s_ActivatedAt = NullTime_zero, s_CanceledAt = NullTime_zero,
      s_ExpiresAt = NullTime_zero, s_CurrentPeriodStartedAt = NullTime_zero,
      s_CurrentPeriodEndsAt = NullTime_zero, s_TrialStartedAt = NullTime_zero,
      s_TrialEndsAt = NullTime_zero, s_TaxInCents = 0, s_TaxType = [], s_TaxRegion = [],
      s_TaxRate = 0, s_PONumber = [], s_NetTerms = NullInt_zero, s_SubscriptionAddOns = [],
      s_PendingSubscription = None\<rparr>"

definition NewSubscription_zero :: NewSubscription where
  "NewSubscription_zero =
     \<lparr>ns_XMLName = [], ns_PlanCode = [], ns_Account = Account_zero,
      ns_SubscriptionAddOns = None, ns_CouponCode = [], ns_UnitAmountInCents = 0,
      ns_Currency = [], ns_Quantity = 0, ns_TrialEndsAt = NullTime_zero,
      ns_StartsAt = NullTime_zero, ns_TotalBillingCycles = 0,
      ns_FirstRenewalDate = NullTime_zero, ns_CollectionMethod = [],
      ns_NetTerms = NullInt_zero, ns_PONumber = [], ns_Bulk = False,
      ns_TermsAndConditions = [], ns_CustomerNotes = [], ns_VATReverseChargeNotes = [],
      ns_BankAccountAuthorizedAt = NullTime_zero\<rparr>"

definition UpdateSubscription_zero :: UpdateSubscription where
  "UpdateSubscription_zero =
     \<lparr>us_XMLName = [], us_Timeframe = [], us_PlanCode = [], us_Quantity = 0,
      us_UnitAmountInCents = 0, us_CollectionMethod = [], us_NetTerms = NullInt_zero,
      us_PONumber = [], us_SubscriptionAddOns = None\<rparr>"

text \<open>
  \<^verbatim>\<open>Subscription.MakeUpdate\<close>. The pointer \<^verbatim>\<open>&s.SubscriptionAddOns\<close> is never nil; it is
  modelled by \<open>Some\<close> of the slice it points to.
\<close>

definition MakeUpdate :: "Subscription \<Rightarrow> UpdateSubscription" where
  "MakeUpdate s =
     UpdateSubscription_zero
       \<lparr>us_NetTerms := s_NetTerms s,
        us_SubscriptionAddOns := Some (s_SubscriptionAddOns s)\<rparr>"

subsection \<open>Encoding by the field tags\<close>


definition encode_SubscriptionAddOn :: "SubscriptionAddOn \<Rightarrow> enc" where
  "encode_SubscriptionAddOn a =
     elem ''subscription_add_on''
       [string_omitempty ''add_on_type'' (ao_Type a),
        string_field ''add_on_code'' (ao_Code a),
        int_field ''unit_amount_in_cents'' (ao_UnitAmountInCents a),
        int_omitempty ''quantity'' (ao_Quantity a)]"

text \<open>
  A field tagged \<^verbatim>\<open>subscription_add_ons>subscription_add_on,omitempty\<close>: of slice type, and
  of pointer-to-slice type.
\<close>

definition encode_add_ons :: "SubscriptionAddOn list \<Rightarrow> enc" where
  "encode_add_ons xs = elem ''subscription_add_ons'' (map encode_SubscriptionAddOn xs)"

definition encode_add_ons_ptr :: "SubscriptionAddOn list option \<Rightarrow> enc" where
  "encode_add_ons_ptr p = (case p of None \<Rightarrow> skip | Some xs \<Rightarrow> encode_add_ons xs)"



definition encode_NewSubscription :: "Env \<Rightarrow> NewSubscription \<Rightarrow> enc" where
  "encode_NewSubscription env s =
     elem ''subscription''
       [string_field ''plan_code'' (ns_PlanCode s),
        encode_Account (ns_Account s),
        encode_add_ons_ptr (ns_SubscriptionAddOns s),
        string_omitempty ''coupon_code'' (ns_CouponCode s),
        int_omitempty ''unit_amount_in_cents'' (ns_UnitAmountInCents s),
        string_field ''currency'' (ns_Currency s),
        int_omitempty ''quantity'' (ns_Quantity s),
        NullTime_MarshalXML env (ns_TrialEndsAt s) (named ''trial_ends_at''),
        NullTime_MarshalXML env (ns_StartsAt s) (named ''starts_at''),
        int_omitempty ''total_billing_cycles'' (ns_TotalBillingCycles s),
        NullTime_MarshalXML env (ns_FirstRenewalDate s) (named ''first_renewal_date''),
        string_omitempty ''collection_method'' (ns_CollectionMethod s),
        NullInt_MarshalXML (ns_NetTerms s) (named ''net_terms''),
        string_omitempty ''po_number'' (ns_PONumber s),
        bool_omitempty ''bulk'' (ns_Bulk s),
        string_omitempty ''terms_and_conditions'' (ns_TermsAndConditions s),
        string_omitempty ''customer_notes'' (ns_CustomerNotes s),
        string_omitempty ''vat_reverse_charge_notes'' (ns_VATReverseChargeNotes s),
        NullTime_MarshalXML env (ns_BankAccountAuthorizedAt s) (named ''bank_account_authorized_at'')]"

definition encode_UpdateSubscription :: "UpdateSubscription \<Rightarrow> enc" where
  "encode_UpdateSubscription u =
     elem ''subscription''
       [string_omitempty ''timeframe'' (us_Timeframe u),
        string_omitempty ''plan_code'' (us_PlanCode u),
        int_omitempty ''quantity'' (us_Quantity u),
        int_omitempty ''unit_amount_in_cents'' (us_UnitAmountInCents u),
        string_omitempty ''collection_method'' (us_CollectionMethod u),
        NullInt_MarshalXML (us_NetTerms u) (named ''net_terms''),
        string_omitempty ''po_number'' (us_PONumber u),
        encode_add_ons_ptr (us_SubscriptionAddOns u)]"

text \<open>
  \<^verbatim>\<open>xml.Marshal(v)\<close>: a fresh encoder, the bytes written, or the error. The step \<open>f\<close> is
  what \<^verbatim>\<open>marshalValue\<close> does for \<^verbatim>\<open>v\<close>: the encoding by the field tags when \<^verbatim>\<open>v\<close> is a
  plain struct, which closes every tag it opens; \<open>marshalInterface\<close> of the method when
  \<^verbatim>\<open>v\<close> has a \<^verbatim>\<open>MarshalXML\<close> method (\<open>Marshal_Transaction\<close> below).
\<close>

definition Marshal :: "enc \<Rightarrow> error + string" where
  "Marshal f = (case f [] of (e, None) \<Rightarrow> Inr (render e) | (e, Some err) \<Rightarrow> Inl err)"

section \<open>transactions.go\<close>

record TransactionError =
  te_XMLName :: string
  te_ErrorCode :: string
  te_ErrorCategory :: string
  te_MerchantMessage :: string
  te_CustomerMessage :: string
  te_GatewayErrorCode :: string

record TransactionResult =
  tr_Code :: string
  tr_Message :: string

type_synonym CVVResult = TransactionResult

type_synonym AVSResult = TransactionResult

record Transaction =
  tx_InvoiceNumber :: int
  tx_UUID :: string
  tx_Action :: string
  tx_AmountInCents :: int
  tx_TaxInCents :: int
  tx_Currency :: string
  tx_Status :: string
  tx_Description :: string
  tx_ProductCode :: string
  tx_PaymentMethod :: string
  tx_Reference :: string
  tx_Source :: string
  tx_Recurring :: NullBool
  tx_Test :: bool
  tx_Voidable :: NullBool
  tx_Refundable :: NullBool
  tx_IPAddress :: IP
  tx_TransactionError :: "TransactionError option"
  tx_CVVResult :: CVVResult
  tx_AVSResult :: AVSResult
  tx_AVSResultStreet :: string
  tx_AVSResultPostal :: string
  tx_CreatedAt :: NullTime
  tx_Account :: Account

definition Transaction_zero :: Transaction where
  "Transaction_zero =
     \<lparr>tx_InvoiceNumber = 0, tx_UUID = [], tx_Action = [], tx_AmountInCents = 0,
      tx_TaxInCents = 0, tx_Currency = [], tx_Status = [], tx_Description = [],
      tx_ProductCode = [], tx_PaymentMethod = [], tx_Reference = [], tx_Source = [],
      tx_Recurring = NullBool_zero, tx_Test = False, tx_Voidable = NullBool_zero,
      tx_Refundable = NullBool_zero, tx_IPAddress = [], tx_TransactionError = None,
      tx_CVVResult = \<lparr>tr_Code = [], tr_Message = []\<rparr>,
      tx_AVSResult = \<lparr>tr_Code = [], tr_Message = []\<rparr>,
      tx_AVSResultStreet = [], tx_AVSResultPostal = [], tx_CreatedAt = NullTime_zero,
      tx_Account = Account_zero\<rparr>"




text \<open>\<^verbatim>\<open>CVVResult\<close>'s predicates.\<close>

definition IsMatch :: "CVVResult \<Rightarrow> bool" where
  "IsMatch c = (tr_Code c = ''M'' \<or> tr_Code c = ''Y'')"

definition IsNoMatch :: "CVVResult \<Rightarrow> bool" where
  "IsNoMatch c = (tr_Code c = ''N'')"

definition NotProcessed :: "CVVResult \<Rightarrow> bool" where
  "NotProcessed c = (tr_Code c = ''P'')"

definition ShouldHaveBeenPresent :: "CVVResult \<Rightarrow> bool" where
  "ShouldHaveBeenPresent c = (tr_Code c = ''S'')"

definition UnableToProcess :: "CVVResult \<Rightarrow> bool" where
  "UnableToProcess c = (tr_Code c = ''U'')"

subsection \<open>Transactions, the sortable slice\<close>

text \<open>
  An index expression out of range and the dereference of a nil pointer panic. In
  \<^verbatim>\<open>Less\<close>, \<^verbatim>\<open>s[i].CreatedAt.Time\<close> is the receiver of \<^verbatim>\<open>Before\<close>, a method of
  \<^verbatim>\<open>time.Time\<close> values, so the pointer is dereferenced for the call;
  \<^verbatim>\<open>*s[j].CreatedAt.Time\<close> is dereferenced in the source.
\<close>

datatype panic = IndexOutOfRange | NilPointerDereference

type_synonym Transactions = "Transaction list"

definition Len :: "Transactions \<Rightarrow> int" where
  "Len s = int (length s)"

definition index :: "Transactions \<Rightarrow> int \<Rightarrow> panic + Transaction" where
  "index s i = (if 0 \<le> i \<and> i < int (length s) then Inr (s ! nat i) else Inl IndexOutOfRange)"

definition Swap :: "Transactions \<Rightarrow> int \<Rightarrow> int \<Rightarrow> panic + Transactions" where
  "Swap s i j =
     (case index s i of
        Inl p \<Rightarrow> Inl p
      | Inr ti \<Rightarrow>
          (case index s j of
             Inl p \<Rightarrow> Inl p
           | Inr tj \<Rightarrow> Inr (s[nat i := tj, nat j := ti])))"

definition Less :: "Transactions \<Rightarrow> int \<Rightarrow> int \<Rightarrow> panic + bool" where
  "Less s i j =
     (case index s i of
        Inl p \<Rightarrow> Inl p
      | Inr ti \<Rightarrow>
          (case nt_Time (tx_CreatedAt ti) of
             None \<Rightarrow> Inl NilPointerDereference
           | Some a \<Rightarrow>
               (case index s j of
                  Inl p \<Rightarrow> Inl p
                | Inr tj \<Rightarrow>
                    (case nt_Time (tx_CreatedAt tj) of
                       None \<Rightarrow> Inl NilPointerDereference
                     | Some b \<Rightarrow> Inr (Before a b)))))"


section \<open>Decoding\<close>

text \<open>
  \<^verbatim>\<open>Decoder.unmarshal\<close> into a struct visits the children of the element in document
  order. A child element whose name is the tag of a field is decoded into that field (the
  field keeps what an earlier child of the same name put there, unless the decoding
  replaces it); any other child and all character data are skipped. The first error ends
  the decoding.
\<close>

fun decode_children :: "(Element \<Rightarrow> 'a \<Rightarrow> error + 'a) \<Rightarrow> Content list \<Rightarrow> 'a \<Rightarrow> error + 'a" where
  "decode_children field [] v = Inr v"
| "decode_children field (Chars s # cs) v = decode_children field cs v"
| "decode_children field (Child c # cs) v =
     (case field c v of Inl err \<Rightarrow> Inl err | Inr v' \<Rightarrow> decode_children field cs v')"

definition then_set :: "error + 'b \<Rightarrow> ('b \<Rightarrow> 'a) \<Rightarrow> error + 'a" where
  "then_set r f = (case r of Inl err \<Rightarrow> Inl err | Inr v \<Rightarrow> Inr (f v))"

text \<open>A field whose type has an \<^verbatim>\<open>UnmarshalXML\<close> method: its error ends the decoding.\<close>

definition unmarshaler :: "'a \<times> error option \<Rightarrow> error + 'a" where
  "unmarshaler r = (case r of (v, None) \<Rightarrow> Inr v | (v, Some err) \<Rightarrow> Inl err)"

text \<open>A struct with a named \<^verbatim>\<open>XMLName\<close> tag accepts an element of that name only.\<close>

definition expect_name :: "string \<Rightarrow> Element \<Rightarrow> error + 'a \<Rightarrow> error + 'a" where
  "expect_name n el r = (if el_name el \<noteq> n then Inl (UnmarshalError n (el_name el)) else r)"

subsection \<open>Subscription.UnmarshalXML\<close>

definition NestedPlan_field :: "Element \<Rightarrow> NestedPlan \<Rightarrow> error + NestedPlan" where
  "NestedPlan_field c p =
     (if el_name c = ''plan_code'' then Inr (p\<lparr>np_Code := el_text c\<rparr>)
      else if el_name c = ''name'' then Inr (p\<lparr>np_Name := el_text c\<rparr>)
      else Inr p)"

definition decode_NestedPlan :: "Element \<Rightarrow> NestedPlan \<Rightarrow> error + NestedPlan" where
  "decode_NestedPlan el p = decode_children NestedPlan_field (el_content el) p"

definition SubscriptionAddOn_field :: "Element \<Rightarrow> SubscriptionAddOn \<Rightarrow> error + SubscriptionAddOn" where
  "SubscriptionAddOn_field c a =
     (if el_name c = ''add_on_type'' then Inr (a\<lparr>ao_Type := el_text c\<rparr>)
      else if el_name c = ''add_on_code'' then Inr (a\<lparr>ao_Code := el_text c\<rparr>)
      else if el_name c = ''unit_amount_in_cents''
        then then_set (DecodeElement_int c) (\<lambda>v. a\<lparr>ao_UnitAmountInCents := v\<rparr>)
      else if el_name c = ''quantity''
        then then_set (DecodeElement_int c) (\<lambda>v. a\<lparr>ao_Quantity := v\<rparr>)
      else Inr a)"

definition decode_SubscriptionAddOn :: "Element \<Rightarrow> SubscriptionAddOn \<Rightarrow> error + SubscriptionAddOn" where
  "decode_SubscriptionAddOn el a =
     expect_name ''subscription_add_on'' el
       (decode_children SubscriptionAddOn_field (el_content el) (a\<lparr>ao_XMLName := el_name el\<rparr>))"

text \<open>
  A slice field under the parent path \<^verbatim>\<open>subscription_add_ons>subscription_add_on\<close>: every
  \<^verbatim>\<open>subscription_add_on\<close> child of the parent element is decoded into a new last element.
\<close>

definition add_ons_field :: "Element \<Rightarrow> SubscriptionAddOn list \<Rightarrow> error + SubscriptionAddOn list" where
  "add_ons_field c xs =
     (if el_name c = ''subscription_add_on''
        then then_set (decode_SubscriptionAddOn c SubscriptionAddOn_zero) (\<lambda>a. xs @ [a])
      else Inr xs)"

definition decode_add_ons :: "Element \<Rightarrow> SubscriptionAddOn list \<Rightarrow> error + SubscriptionAddOn list" where
  "decode_add_ons parent xs = decode_children add_ons_field (el_content parent) xs"

definition PendingSubscription_field :: "Element \<Rightarrow> PendingSubscription \<Rightarrow> error + PendingSubscription" where
  "PendingSubscription_field c p =
     (if el_name c = ''plan''
        then then_set (decode_NestedPlan c (ps_Plan p)) (\<lambda>v. p\<lparr>ps_Plan := v\<rparr>)
      else if el_name c = ''quantity''
        then then_set (DecodeElement_int c) (\<lambda>v. p\<lparr>ps_Quantity := v\<rparr>)
      else if el_name c = ''unit_amount_in_cents''
        then then_set (DecodeElement_int c) (\<lambda>v. p\<lparr>ps_Price := v\<rparr>)
      else if el_name c = ''subscription_add_ons''
        then then_set (decode_add_ons c (ps_SubscriptionAddOns p)) (\<lambda>v. p\<lparr>ps_SubscriptionAddOns := v\<rparr>)
      else Inr p)"

definition decode_PendingSubscription :: "Element \<Rightarrow> PendingSubscription \<Rightarrow> error + PendingSubscription" where
  "decode_PendingSubscription el p =
     expect_name ''pending_subscription'' el
       (decode_children PendingSubscription_field (el_content el) (p\<lparr>ps_XMLName := el_name el\<rparr>))"

text \<open>
  The fields of the local struct \<^verbatim>\<open>v\<close> of \<^verbatim>\<open>Subscription.UnmarshalXML\<close>, in the order of
  its declaration. \<^verbatim>\<open>v\<close> differs from \<^verbatim>\<open>Subscription\<close> in the types \<^verbatim>\<open>hrefString\<close> and
  \<^verbatim>\<open>hrefInt\<close> of two fields, which the method converts back to \<^verbatim>\<open>string\<close> and \<^verbatim>\<open>int\<close>; the
  model uses the record \<open>Subscription\<close> for both.
\<close>

definition Subscription_field :: "Env \<Rightarrow> Element \<Rightarrow> Subscription \<Rightarrow> error + Subscription" where
  "Subscription_field env c v =
     (if el_name c = ''plan''
        then then_set (decode_NestedPlan c (s_Plan v)) (\<lambda>x. v\<lparr>s_Plan := x\<rparr>)
      else if el_name c = ''account''
        then then_set (unmarshaler (hrefString_UnmarshalXML env (s_AccountCode v) c))
               (\<lambda>x. v\<lparr>s_AccountCode := x\<rparr>)
      else if el_name c = ''invoice''
        then then_set (unmarshaler (hrefInt_UnmarshalXML env (s_InvoiceNumber v) c))
               (\<lambda>x. v\<lparr>s_InvoiceNumber := x\<rparr>)
      else if el_name c = ''uuid'' then Inr (v\<lparr>s_UUID := el_text c\<rparr>)
      else if el_name c = ''state'' then Inr (v\<lparr>s_State := el_text c\<rparr>)
      else if el_name c = ''unit_amount_in_cents''
        then then_set (DecodeElement_int c) (\<lambda>x. v\<lparr>s_UnitAmountInCents := x\<rparr>)
      else if el_name c = ''currency'' then Inr (v\<lparr>s_Currency := el_text c\<rparr>)
      else if el_name c = ''quantity''
        then then_set (DecodeElement_int c) (\<lambda>x. v\<lparr>s_Quantity := x\<rparr>)
      else if el_name c = ''total_amount_in_cents''
        then then_set (DecodeElement_int c) (\<lambda>x. v\<lparr>s_TotalAmountInCents := x\<rparr>)
      else if el_name c = ''activated_at''
        then then_set (unmarshaler (NullTime_UnmarshalXML env (s_ActivatedAt v) c))
               (\<lambda>x. v\<lparr>s_ActivatedAt := x\<rparr>)
      else if el_name c = ''canceled_at''
        then then_set (unmarshaler (NullTime_UnmarshalXML env (s_CanceledAt v) c))
               (\<lambda>x. v\<lparr>s_CanceledAt := x\<rparr>)
      else if el_name c = ''expires_at''
        then then_set (unmarshaler (NullTime_UnmarshalXML env (s_ExpiresAt v) c))
               (\<lambda>x. v\<lparr>s_ExpiresAt := x\<rparr>)
      else if el_name c = ''current_period_started_at''
        then then_set (unmarshaler (NullTime_UnmarshalXML env (s_CurrentPeriodStartedAt v) c))
               (\<lambda>x. v\<lparr>s_CurrentPeriodStartedAt := x\<rparr>)
      else if el_name c = ''current_period_ends_at''
        then then_set (unmarshaler (NullTime_UnmarshalXML env (s_CurrentPeriodEndsAt v) c))
               (\<lambda>x. v\<lparr>s_CurrentPeriodEndsAt := x\<rparr>)
      else if el_name c = ''trial_started_at''
        then then_set (unmarshaler (NullTime_UnmarshalXML env (s_TrialStartedAt v) c))
               (\<lambda>x. v\<lparr>s_TrialStartedAt := x\<rparr>)
      else if el_name c = ''trial_ends_at''
        then then_set (unmarshaler (NullTime_UnmarshalXML env (s_TrialEndsAt v) c))
               (\<lambda>x. v\<lparr>s_TrialEndsAt := x\<rparr>)
      else if el_name c = ''tax_in_cents''
        then then_set (DecodeElement_int c) (\<lambda>x. v\<lparr>s_TaxInCents := x\<rparr>)
      else if el_name c = ''tax_type'' then Inr (v\<lparr>s_TaxType := el_text c\<rparr>)
      else if el_name c = ''tax_region'' then Inr (v\<lparr>s_TaxRegion := el_text c\<rparr>)
      else if el_name c = ''tax_rate''
        then then_set (ParseFloat env (el_text c)) (\<lambda>x. v\<lparr>s_TaxRate := x\<rparr>)
      else if el_name c = ''po_number'' then Inr (v\<lparr>s_PONumber := el_text c\<rparr>)
      else if el_name c = ''net_terms''
        then then_set (unmarshaler (NullInt_UnmarshalXML (s_NetTerms v) c))
               (\<lambda>x. v\<lparr>s_NetTerms := x\<rparr>)
      else if el_name c = ''subscription_add_ons''
        then then_set (decode_add_ons c (s_SubscriptionAddOns v))
               (\<lambda>x. v\<lparr>s_SubscriptionAddOns := x\<rparr>)
      else if el_name c = ''pending_subscription''
        then then_set
               (decode_PendingSubscription c
                  (case s_PendingSubscription v of None \<Rightarrow> PendingSubscription_zero | Some p \<Rightarrow> p))
               (\<lambda>x. v\<lparr>s_PendingSubscription := Some x\<rparr>)
      else Inr v)"

definition decode_v :: "Env \<Rightarrow> Element \<Rightarrow> error + Subscription" where
  "decode_v env el =
     expect_name ''subscription'' el
       (decode_children (Subscription_field env) (el_content el)
          (Subscription_zero\<lparr>s_XMLName := el_name el\<rparr>))"

definition Subscription_UnmarshalXML :: "Env \<Rightarrow> Subscription \<Rightarrow> Element \<Rightarrow> Subscription \<times> error option" where
  "Subscription_UnmarshalXML env s el =
     (case decode_v env el of Inl err \<Rightarrow> (s, Some err) | Inr v \<Rightarrow> (v, None))"


section \<open>Package webhooks\<close>

subsection \<open>Webhook notification constants\<close>

definition NewAccount :: string where "NewAccount = ''new_account_notification''"
definition UpdatedAccount :: string where "UpdatedAccount = ''updated_account_notification''"
definition BillingInfoUpdated :: string where "BillingInfoUpdated = ''billing_info_updated_notification''"
definition ReactivedAccount :: string where "ReactivedAccount = ''reactivated_account_notification''"
definition NewSubscription :: string where "NewSubscription = ''new_subscription_notification''"
definition UpdatedSubscription :: string where "UpdatedSubscription = ''updated_subscription_notification''"
definition RenewedSubscription :: string where "RenewedSubscription = ''renewed_subscription_notification''"
definition ExpiredSubscription :: string where "ExpiredSubscription = ''expired_subscription_notification''"
definition CanceledSubscription :: string where "CanceledSubscription = ''canceled_subscription_notification''"
definition ReactivatedSubscription :: string where "ReactivatedSubscription = ''reactivated_subcription_notification''"
definition NewInvoice :: string where "NewInvoice = ''new_invoice_notification''"
definition PastDueInvoice :: string where "PastDueInvoice = ''past_due_invoice_notification''"
definition ClosedInvoice :: string where "ClosedInvoice = ''closed_invoice_notification''"
definition ProcessingInvoice :: string where "ProcessingInvoice = ''processing_invoice_notification''"
definition NewShippingAddress :: string where "NewShippingAddress = ''new_shipping_address_notification''"
definition DeletedShippingAddress :: string where "DeletedShippingAddress = ''deleted_shipping_address_notification''"
definition UpdatedShippingAddress :: string where "UpdatedShippingAddress = ''updated_shipping_address_notification''"
definition SuccessfulPayment :: string where "SuccessfulPayment = ''successful_payment_notification''"
definition FailedPayment :: string where "FailedPayment = ''failed_payment_notification''"
definition VoidPayment :: string where "VoidPayment = ''void_payment_notification''"
definition SuccessfulRefund :: string where "SuccessfulRefund = ''successful_refund_notification''"
definition NewDunningEvent :: string where "NewDunningEvent = ''new_dunning_event_notification''"

lemmas notification_constants =
  NewAccount_def UpdatedAccount_def BillingInfoUpdated_def ReactivedAccount_def
  NewSubscription_def UpdatedSubscription_def RenewedSubscription_def
  ExpiredSubscription_def CanceledSubscription_def ReactivatedSubscription_def
  NewInvoice_def PastDueInvoice_def ClosedInvoice_def ProcessingInvoice_def
  NewShippingAddress_def DeletedShippingAddress_def UpdatedShippingAddress_def
  SuccessfulPayment_def FailedPayment_def VoidPayment_def SuccessfulRefund_def
  NewDunningEvent_def

text \<open>The named notification constants, in the order of their declaration.\<close>

definition registered_names :: "string list" where
  "registered_names =
     [NewAccount, UpdatedAccount, BillingInfoUpdated, ReactivedAccount,
      NewSubscription, UpdatedSubscription, RenewedSubscription, ExpiredSubscription,
      CanceledSubscription, ReactivatedSubscription,
      NewInvoice, PastDueInvoice, ClosedInvoice, ProcessingInvoice,
      NewShippingAddress, DeletedShippingAddress, UpdatedShippingAddress,
      SuccessfulPayment, FailedPayment, VoidPayment, SuccessfulRefund,
      NewDunningEvent]"

subsection \<open>The objects sent in webhooks\<close>

record wAccount =
  wa_XMLName :: string
  wa_Code :: string
  wa_Username :: string
  wa_Email :: string
  wa_FirstName :: string
  wa_LastName :: string
  wa_CompanyName :: string
  wa_Phone :: string

record wTransaction =
  wt_XMLName :: string
  wt_UUID :: string
  wt_InvoiceNumber :: int
  wt_SubscriptionUUID :: string
  wt_Action :: string
  wt_AmountInCents :: int
  wt_Status :: string
  wt_Message :: string
  wt_GatewayErrorCodes :: string
  wt_FailureType :: string
  wt_Reference :: string
  wt_Source :: string
  wt_Test :: NullBool
  wt_Voidable :: NullBool
  wt_Refundable :: NullBool

record Invoice =
  inv_XMLName :: string
  inv_SubscriptionUUID :: string
  inv_UUID :: string
  inv_State :: string
  inv_InvoiceNumberPrefix :: string
  inv_InvoiceNumber :: int
  inv_PONumber :: string
  inv_VATNumber :: string
  inv_TotalInCents :: int
  inv_Currency :: string
  inv_CreatedAt :: NullTime
  inv_ClosedAt :: NullTime
  inv_NetTerms :: NullInt
  inv_CollectionMethod :: string

record ShippingAdddress =
  sa_XMLName :: string
  sa_ID :: int
  sa_Nickname :: string
  sa_FirstName :: string
  sa_LastName :: string
  sa_CompanyName :: string
  sa_VATNumber :: string
  sa_Street1 :: string
  sa_Street2 :: string
  sa_City :: string
  sa_State :: string
  sa_Zip :: string
  sa_Country :: string
  sa_Email :: string
  sa_Phone :: string

definition wAccount_zero :: wAccount where
  "wAccount_zero =
     \<lparr>wa_XMLName = [], wa_Code = [], wa_Username = [], wa_Email = [], wa_FirstName = [],
      wa_LastName = [], wa_CompanyName = [], wa_Phone = []\<rparr>"

definition wTransaction_zero :: wTransaction where
  "wTransaction_zero =
     \<lparr>wt_XMLName = [], wt_UUID = [], wt_InvoiceNumber = 0, wt_SubscriptionUUID = [],
      wt_Action = [], wt_AmountInCents = 0, wt_Status = [], wt_Message = [],
      wt_GatewayErrorCodes = [], wt_FailureType = [], wt_Reference = [], wt_Source = [],
      wt_Test = NullBool_zero, wt_Voidable = NullBool_zero, wt_Refundable = NullBool_zero\<rparr>"

definition Invoice_zero :: Invoice where
  "Invoice_zero =
     \<lparr>inv_XMLName = [], inv_SubscriptionUUID = [], inv_UUID = [], inv_State = [],
      inv_InvoiceNumberPrefix = [], inv_InvoiceNumber = 0, inv_PONumber = [],
      inv_VATNumber = [], inv_TotalInCents = 0, inv_Currency = [],
      inv_CreatedAt = NullTime_zero, inv_ClosedAt = NullTime_zero,
      inv_NetTerms = NullInt_zero, inv_CollectionMethod = []\<rparr>"

definition ShippingAdddress_zero :: ShippingAdddress where
  "ShippingAdddress_zero =
     \<lparr>sa_XMLName = [], sa_ID = 0, sa_Nickname = [], sa_FirstName = [], sa_LastName = [],
      sa_CompanyName = [], sa_VATNumber = [], sa_Street1 = [], sa_Street2 = [],
      sa_City = [], sa_State = [], sa_Zip = [], sa_Country = [], sa_Email = [],
      sa_Phone = []\<rparr>"

definition wAccount_field :: "Element \<Rightarrow> wAccount \<Rightarrow> error + wAccount" where
  "wAccount_field c a =
     (if el_name c = ''account_code'' then Inr (a\<lparr>wa_Code := el_text c\<rparr>)
      else if el_name c = ''username'' then Inr (a\<lparr>wa_Username := el_text c\<rparr>)
      else if el_name c = ''email'' then Inr (a\<lparr>wa_Email := el_text c\<rparr>)
      else if el_name c = ''first_name'' then Inr (a\<lparr>wa_FirstName := el_text c\<rparr>)
      else if el_name c = ''last_name'' then Inr (a\<lparr>wa_LastName := el_text c\<rparr>)
      else if el_name c = ''company_name'' then Inr (a\<lparr>wa_CompanyName := el_text c\<rparr>)
      else if el_name c = ''phone'' then Inr (a\<lparr>wa_Phone := el_text c\<rparr>)
      else Inr a)"

definition decode_wAccount :: "Element \<Rightarrow> wAccount \<Rightarrow> error + wAccount" where
  "decode_wAccount el a =
     expect_name ''account'' el
       (decode_children wAccount_field (el_content el) (a\<lparr>wa_XMLName := el_name el\<rparr>))"

definition wTransaction_field :: "Element \<Rightarrow> wTransaction \<Rightarrow> error + wTransaction" where
  "wTransaction_field c t =
     (if el_name c = ''id'' then Inr (t\<lparr>wt_UUID := el_text c\<rparr>)
      else if el_name c = ''invoice_number''
        then then_set (DecodeElement_int c) (\<lambda>x. t\<lparr>wt_InvoiceNumber := x\<rparr>)
      else if el_name c = ''subscription_id'' then Inr (t\<lparr>wt_SubscriptionUUID := el_text c\<rparr>)
      else if el_name c = ''action'' then Inr (t\<lparr>wt_Action := el_text c\<rparr>)
      else if el_name c = ''amount_in_cents''
        then then_set (DecodeElement_int c) (\<lambda>x. t\<lparr>wt_AmountInCents := x\<rparr>)
      else if el_name c = ''status'' then Inr (t\<lparr>wt_Status := el_text c\<rparr>)
      else if el_name c = ''message'' then Inr (t\<lparr>wt_Message := el_text c\<rparr>)
      else if el_name c = ''gateway_error_codes'' then Inr (t\<lparr>wt_GatewayErrorCodes := el_text c\<rparr>)
      else if el_name c = ''failure_type'' then Inr (t\<lparr>wt_FailureType := el_text c\<rparr>)
      else if el_name c = ''reference'' then Inr (t\<lparr>wt_Reference := el_text c\<rparr>)
      else if el_name c = ''source'' then Inr (t\<lparr>wt_Source := el_text c\<rparr>)
      else if el_name c = ''test''
        then then_set (unmarshaler (NullBool_UnmarshalXML (wt_Test t) c)) (\<lambda>x. t\<lparr>wt_Test := x\<rparr>)
      else if el_name c = ''voidable''
        then then_set (unmarshaler (NullBool_UnmarshalXML (wt_Voidable t) c)) (\<lambda>x. t\<lparr>wt_Voidable := x\<rparr>)
      else if el_name c = ''refundable''
        then then_set (unmarshaler (NullBool_UnmarshalXML (wt_Refundable t) c)) (\<lambda>x. t\<lparr>wt_Refundable := x\<rparr>)
      else Inr t)"

definition decode_wTransaction :: "Element \<Rightarrow> wTransaction \<Rightarrow> error + wTransaction" where
  "decode_wTransaction el t =
     expect_name ''transaction'' el
       (decode_children wTransaction_field (el_content el) (t\<lparr>wt_XMLName := el_name el\<rparr>))"

definition Invoice_field :: "Env \<Rightarrow> Element \<Rightarrow> Invoice \<Rightarrow> error + Invoice" where
  "Invoice_field env c i =
     (if el_name c = ''subscription_id'' then Inr (i\<lparr>inv_SubscriptionUUID := el_text c\<rparr>)
      else if el_name c = ''uuid'' then Inr (i\<lparr>inv_UUID := el_text c\<rparr>)
      else if el_name c = ''state'' then Inr (i\<lparr>inv_State := el_text c\<rparr>)
      else if el_name c = ''invoice_number_prefix'' then Inr (i\<lparr>inv_InvoiceNumberPrefix := el_text c\<rparr>)
      else if el_name c = ''invoice_number''
        then then_set (DecodeElement_int c) (\<lambda>x. i\<lparr>inv_InvoiceNumber := x\<rparr>)
      else if el_name c = ''po_number'' then Inr (i\<lparr>inv_PONumber := el_text c\<rparr>)
      else if el_name c = ''vat_number'' then Inr (i\<lparr>inv_VATNumber := el_text c\<rparr>)
      else if el_name c = ''total_in_cents''
        then then_set (DecodeElement_int c) (\<lambda>x. i\<lparr>inv_TotalInCents := x\<rparr>)
      else if el_name c = ''currency'' then Inr (i\<lparr>inv_Currency := el_text c\<rparr>)
      else if el_name c = ''date''
        then then_set (unmarshaler (NullTime_UnmarshalXML env (inv_CreatedAt i) c)) (\<lambda>x. i\<lparr>inv_CreatedAt := x\<rparr>)
      else if el_name c = ''closed_at''
        then then_set (unmarshaler (NullTime_UnmarshalXML env (inv_ClosedAt i) c)) (\<lambda>x. i\<lparr>inv_ClosedAt := x\<rparr>)
      else if el_name c = ''net_terms''
        then then_set (unmarshaler (NullInt_UnmarshalXML (inv_NetTerms i) c)) (\<lambda>x. i\<lparr>inv_NetTerms := x\<rparr>)
      else if el_name c = ''collection_method'' then Inr (i\<lparr>inv_CollectionMethod := el_text c\<rparr>)
      else Inr i)"

definition decode_Invoice :: "Env \<Rightarrow> Element \<Rightarrow> Invoice \<Rightarrow> error + Invoice" where
  "decode_Invoice env el i =
     expect_name ''invoice'' el
       (decode_children (Invoice_field env) (el_content el) (i\<lparr>inv_XMLName := el_name el\<rparr>))"

definition ShippingAdddress_field :: "Element \<Rightarrow> ShippingAdddress \<Rightarrow> error + ShippingAdddress" where
  "ShippingAdddress_field c a =
     (if el_name c = ''id'' then then_set (DecodeElement_int c) (\<lambda>x. a\<lparr>sa_ID := x\<rparr>)
      else if el_name c = ''nickname'' then Inr (a\<lparr>sa_Nickname := el_text c\<rparr>)
      else if el_name c = ''first_name'' then Inr (a\<lparr>sa_FirstName := el_text c\<rparr>)
      else if el_name c = ''last_name'' then Inr (a\<lparr>sa_LastName := el_text c\<rparr>)
      else if el_name c = ''company_name'' then Inr (a\<lparr>sa_CompanyName := el_text c\<rparr>)
      else if el_name c = ''vat_number'' then Inr (a\<lparr>sa_VATNumber := el_text c\<rparr>)
      else if el_name c = ''street1'' then Inr (a\<lparr>sa_Street1 := el_text c\<rparr>)
      else if el_name c = ''street2'' then Inr (a\<lparr>sa_Street2 := el_text c\<rparr>)
      else if el_name c = ''city'' then Inr (a\<lparr>sa_City := el_text c\<rparr>)
      else if el_name c = ''state'' then Inr (a\<lparr>sa_State := el_text c\<rparr>)
      else if el_name c = ''zip'' then Inr (a\<lparr>sa_Zip := el_text c\<rparr>)
      else if el_name c = ''country'' then Inr (a\<lparr>sa_Country := el_text c\<rparr>)
      else if el_name c = ''email'' then Inr (a\<lparr>sa_Email := el_text c\<rparr>)
      else if el_name c = ''phone'' then Inr (a\<lparr>sa_Phone := el_text c\<rparr>)
      else Inr a)"

definition decode_ShippingAdddress :: "Element \<Rightarrow> ShippingAdddress \<Rightarrow> error + ShippingAdddress" where
  "decode_ShippingAdddress el a =
     expect_name ''shipping_address'' el
       (decode_children ShippingAdddress_field (el_content el) (a\<lparr>sa_XMLName := el_name el\<rparr>))"

subsection \<open>The notification types\<close>

text \<open>
  \<^verbatim>\<open>ParseResponse.Data\<close> is an \<^verbatim>\<open>interface{}\<close> holding a pointer to one of the notification
  structs; the constructor is the dynamic type, its arguments are the fields.
\<close>

datatype Notification =
    NewAccountNotification wAccount
  | UpdatedAccountNotification wAccount
  | ReactivatedAccountNotification wAccount
  | BillingInfoUpdatedNotification wAccount
  | NewSubscriptionNotification wAccount Subscription
  | UpdatedSubscriptionNotification wAccount Subscription
  | RenewedSubscriptionNotification wAccount Subscription
  | ExpiredSubscriptionNotification wAccount Subscription
  | CanceledSubscriptionNotification wAccount Subscription
  | NewInvoiceNotification wAccount Invoice
  | PastDueInvoiceNotification wAccount Invoice
  | ProcessingInvoiceNotification wAccount Invoice
  | ClosedInvoiceNotification wAccount Invoice
  | SuccessfulPaymentNotification wAccount wTransaction
  | FailedPaymentNotification wAccount wTransaction
  | VoidPaymentNotification wAccount wTransaction
  | SuccessfulRefundNotification wAccount wTransaction
  | NewShippingAddressNotification wAccount ShippingAdddress
  | UpdatedShippingAddressNotification wAccount ShippingAdddress
  | DeletedShippingAddressNotification wAccount ShippingAdddress
  | NewDunningEventNotification wAccount Invoice Subscription wTransaction

text \<open>
  \<^verbatim>\<open>xml.Unmarshal(notification, dst)\<close> for the five shapes the notification structs have.
  None of them has an \<^verbatim>\<open>XMLName\<close> field: the name of the outer element is not checked.
\<close>

definition account_field :: "Element \<Rightarrow> wAccount \<Rightarrow> error + wAccount" where
  "account_field c a = (if el_name c = ''account'' then decode_wAccount c a else Inr a)"

definition account_subscription_field ::
  "Env \<Rightarrow> Element \<Rightarrow> wAccount \<times> Subscription \<Rightarrow> error + wAccount \<times> Subscription" where
  "account_subscription_field env c v =
     (if el_name c = ''account'' then then_set (decode_wAccount c (fst v)) (\<lambda>x. (x, snd v))
      else if el_name c = ''subscription''
        then then_set (unmarshaler (Subscription_UnmarshalXML env (snd v) c)) (\<lambda>x. (fst v, x))
      else Inr v)"

definition account_invoice_field ::
  "Env \<Rightarrow> Element \<Rightarrow> wAccount \<times> Invoice \<Rightarrow> error + wAccount \<times> Invoice" where
  "account_invoice_field env c v =
     (if el_name c = ''account'' then then_set (decode_wAccount c (fst v)) (\<lambda>x. (x, snd v))
      else if el_name c = ''invoice''
        then then_set (decode_Invoice env c (snd v)) (\<lambda>x. (fst v, x))
      else Inr v)"

definition account_transaction_field ::
  "Element \<Rightarrow> wAccount \<times> wTransaction \<Rightarrow> error + wAccount \<times> wTransaction" where
  "account_transaction_field c v =
     (if el_name c = ''account'' then then_set (decode_wAccount c (fst v)) (\<lambda>x. (x, snd v))
      else if el_name c = ''transaction''
        then then_set (decode_wTransaction c (snd v)) (\<lambda>x. (fst v, x))
      else Inr v)"

definition account_shipping_field ::
  "Element \<Rightarrow> wAccount \<times> ShippingAdddress \<Rightarrow> error + wAccount \<times> ShippingAdddress" where
  "account_shipping_field c v =
     (if el_name c = ''account'' then then_set (decode_wAccount c (fst v)) (\<lambda>x. (x, snd v))
      else if el_name c = ''shipping_address''
        then then_set (decode_ShippingAdddress c (snd v)) (\<lambda>x. (fst v, x))
      else Inr v)"

definition dunning_field ::
  "Env \<Rightarrow> Element \<Rightarrow> wAccount \<times> Invoice \<times> Subscription \<times> wTransaction
     \<Rightarrow> error + wAccount \<times> Invoice \<times> Subscription \<times> wTransaction" where
  "dunning_field env c v =
     (case v of (a, i, s, t) \<Rightarrow>
        if el_name c = ''account'' then then_set (decode_wAccount c a) (\<lambda>x. (x, i, s, t))
        else if el_name c = ''invoice'' then then_set (decode_Invoice env c i) (\<lambda>x. (a, x, s, t))
        else if el_name c = ''subscription''
          then then_set (unmarshaler (Subscription_UnmarshalXML env s c)) (\<lambda>x. (a, i, x, t))
        else if el_name c = ''transaction''
          then then_set (decode_wTransaction c t) (\<lambda>x. (a, i, s, x))
        else Inr v)"

definition Unmarshal_account :: "Element \<Rightarrow> (wAccount \<Rightarrow> Notification) \<Rightarrow> error + Notification" where
  "Unmarshal_account root dst =
     then_set (decode_children account_field (el_content root) wAccount_zero) dst"

definition Unmarshal_account_subscription ::
  "Env \<Rightarrow> Element \<Rightarrow> (wAccount \<Rightarrow> Subscription \<Rightarrow> Notification) \<Rightarrow> error + Notification" where
  "Unmarshal_account_subscription env root dst =
     then_set (decode_children (account_subscription_field env) (el_content root)
                 (wAccount_zero, Subscription_zero))
       (\<lambda>v. dst (fst v) (snd v))"

definition Unmarshal_account_invoice ::
  "Env \<Rightarrow> Element \<Rightarrow> (wAccount \<Rightarrow> Invoice \<Rightarrow> Notification) \<Rightarrow> error + Notification" where
  "Unmarshal_account_invoice env root dst =
     then_set (decode_children (account_invoice_field env) (el_content root)
                 (wAccount_zero, Invoice_zero))
       (\<lambda>v. dst (fst v) (snd v))"

definition Unmarshal_account_transaction ::
  "Element \<Rightarrow> (wAccount \<Rightarrow> wTransaction \<Rightarrow> Notification) \<Rightarrow> error + Notification" where
  "Unmarshal_account_transaction root dst =
     then_set (decode_children account_transaction_field (el_content root)
                 (wAccount_zero, wTransaction_zero))
       (\<lambda>v. dst (fst v) (snd v))"

definition Unmarshal_account_shipping ::
  "Element \<Rightarrow> (wAccount \<Rightarrow> ShippingAdddress \<Rightarrow> Notification) \<Rightarrow> error + Notification" where
  "Unmarshal_account_shipping root dst =
     then_set (decode_children account_shipping_field (el_content root)
                 (wAccount_zero, ShippingAdddress_zero))
       (\<lambda>v. dst (fst v) (snd v))"

definition Unmarshal_dunning :: "Env \<Rightarrow> Element \<Rightarrow> error + Notification" where
  "Unmarshal_dunning env root =
     then_set (decode_children (dunning_field env) (el_content root)
                 (wAccount_zero, Invoice_zero, Subscription_zero, wTransaction_zero))
       (\<lambda>v. case v of (a, i, s, t) \<Rightarrow> NewDunningEventNotification a i s t)"

subsection \<open>Parse\<close>

text \<open>
  What \<^verbatim>\<open>Parse\<close> is given: a reader that fails, bytes that are not well-formed XML up to
  the end of the outer element, or a payload with its outer element.
\<close>

datatype Reader = ReadFails | NotWellFormed | Payload Element

record ParseResponse =
  Message :: string
  Data :: Notification

text \<open>
  The \<^verbatim>\<open>switch\<close> of \<^verbatim>\<open>Parse\<close> on the name of the outer element, its cases in the order of
  the source, each followed by the \<^verbatim>\<open>xml.Unmarshal\<close> into the \<^verbatim>\<open>dst\<close> the case chose; the
  default case returns before anything is decoded.
\<close>

definition dispatch :: "Env \<Rightarrow> string \<Rightarrow> Element \<Rightarrow> error + Notification" where
  "dispatch env n root =
     (if n = NewAccount then Unmarshal_account root NewAccountNotification
      else if n = UpdatedAccount then Unmarshal_account root UpdatedAccountNotification
      else if n = ReactivatedSubscription then Unmarshal_account root ReactivatedAccountNotification
      else if n = BillingInfoUpdated then Unmarshal_account root BillingInfoUpdatedNotification
      else if n = NewSubscription
        then Unmarshal_account_subscription env root NewSubscriptionNotification
      else if n = UpdatedSubscription
        then Unmarshal_account_subscription env root UpdatedSubscriptionNotification
      else if n = RenewedSubscription
        then Unmarshal_account_subscription env root RenewedSubscriptionNotification
      else if n = ExpiredSubscription
        then Unmarshal_account_subscription env root ExpiredSubscriptionNotification
      else if n = CanceledSubscription
        then Unmarshal_account_subscription env root CanceledSubscriptionNotification
      else if n = NewInvoice then Unmarshal_account_invoice env root NewInvoiceNotification
      else if n = PastDueInvoice then Unmarshal_account_invoice env root PastDueInvoiceNotification
      else if n = ProcessingInvoice
        then Unmarshal_account_invoice env root ProcessingInvoiceNotification
      else if n = ClosedInvoice then Unmarshal_account_invoice env root ClosedInvoiceNotification
      else if n = SuccessfulPayment
        then Unmarshal_account_transaction root SuccessfulPaymentNotification
      else if n = FailedPayment then Unmarshal_account_transaction root FailedPaymentNotification
      else if n = VoidPayment then Unmarshal_account_transaction root VoidPaymentNotification
      else if n = SuccessfulRefund
        then Unmarshal_account_transaction root SuccessfulRefundNotification
      else if n = NewShippingAddress
        then Unmarshal_account_shipping root NewShippingAddressNotification
      else if n = UpdatedShippingAddress
        then Unmarshal_account_shipping root UpdatedShippingAddressNotification
      else if n = DeletedShippingAddress
        then Unmarshal_account_shipping root DeletedShippingAddressNotification
      else if n = NewDunningEvent then Unmarshal_dunning env root
      else Inl (Unknown (ErrUnknownNotification n)))"

definition Parse :: "Env \<Rightarrow> Reader \<Rightarrow> ParseResponse option \<times> error option" where
  "Parse env r =
     (case r of
        ReadFails \<Rightarrow> (None, Some ReadError)
      | NotWellFormed \<Rightarrow> (None, Some XMLSyntaxError)
      | Payload root \<Rightarrow>
          (let n = el_name root in
           case dispatch env n root of
             Inl err \<Rightarrow> (None, Some err)
           | Inr dst \<Rightarrow> (Some \<lparr>Message = n, Data = dst\<rparr>, None)))"

text \<open>
  The notification type that corresponds to each named constant, by the names and the
  documentation of the types.
\<close>

definition corresponding :: "string \<Rightarrow> Notification \<Rightarrow> bool" where
  "corresponding n d =
     (case d of
        NewAccountNotification a \<Rightarrow> n = NewAccount
      | UpdatedAccountNotification a \<Rightarrow> n = UpdatedAccount
      | ReactivatedAccountNotification a \<Rightarrow> n = ReactivedAccount
      | BillingInfoUpdatedNotification a \<Rightarrow> n = BillingInfoUpdated
      | NewSubscriptionNotification a s \<Rightarrow> n = NewSubscription
      | UpdatedSubscriptionNotification a s \<Rightarrow> n = UpdatedSubscription
      | RenewedSubscriptionNotification a s \<Rightarrow> n = RenewedSubscription
      | ExpiredSubscriptionNotification a s \<Rightarrow> n = ExpiredSubscription
      | CanceledSubscriptionNotification a s \<Rightarrow> n = CanceledSubscription
      | NewInvoiceNotification a i \<Rightarrow> n = NewInvoice
      | PastDueInvoiceNotification a i \<Rightarrow> n = PastDueInvoice
      | ProcessingInvoiceNotification a i \<Rightarrow> n = ProcessingInvoice
      | ClosedInvoiceNotification a i \<Rightarrow> n = ClosedInvoice
      | SuccessfulPaymentNotification a t \<Rightarrow> n = SuccessfulPayment
      | FailedPaymentNotification a t \<Rightarrow> n = FailedPayment
      | VoidPaymentNotification a t \<Rightarrow> n = VoidPayment
      | SuccessfulRefundNotification a t \<Rightarrow> n = SuccessfulRefund
      | NewShippingAddressNotification a sh \<Rightarrow> n = NewShippingAddress
      | UpdatedShippingAddressNotification a sh \<Rightarrow> n = UpdatedShippingAddress
      | DeletedShippingAddressNotification a sh \<Rightarrow> n = DeletedShippingAddress
      | NewDunningEventNotification a i s t \<Rightarrow> n = NewDunningEvent)"


section \<open>Notions used in the statements\<close>





fun child_names :: "Content list \<Rightarrow> string list" where
  "child_names [] = []"
| "child_names (Chars s # cs) = child_names cs"
| "child_names (Child e # cs) = el_name e # child_names cs"





text \<open>
  The instant of a time in nanoseconds; a \<^verbatim>\<open>time.Time\<close> keeps its nanoseconds within a
  second.
\<close>

definition instant :: "Time \<Rightarrow> int" where
  "instant t = t_sec t * 1000000000 + t_nsec t"

definition normal :: "Time \<Rightarrow> bool" where
  "normal t = (0 \<le> t_nsec t \<and> t_nsec t < 1000000000)"

text \<open>Values for the examples: an environment, and a transaction created at a given second.\<close>

definition example_env :: Env where
  "example_env =
     \<lparr>time_Format = (\<lambda>t. Itoa (t_sec t)),
      time_Parse = (\<lambda>s. then_set (ParseInt s) (\<lambda>v. \<lparr>t_sec = v, t_nsec = 0, t_loc = ''UTC''\<rparr>)),
      FormatFloat = (\<lambda>f. Itoa (uint f)),
      ParseFloat = (\<lambda>s. then_set (ParseInt s) word_of_int),
      IP_String = (\<lambda>ip. concat (map (\<lambda>b. Itoa (uint b) @ ''.'') ip)),
      href_id = (\<lambda>s. s)\<rparr>"

definition created_at :: "int \<Rightarrow> Transaction" where
  "created_at k =
     Transaction_zero\<lparr>tx_CreatedAt := NewTime \<lparr>t_sec = k, t_nsec = 0, t_loc = ''UTC''\<rparr>\<rparr>"

section \<open>Properties\<close>

subsection \<open>Evaluation of the encoder steps\<close>

lemmas enc_defs =
  andThen_def writeStart_def writeText_def writeEnd_def skip_def named_def
  EncodeElement_text_def EncodeElement_int_def elem_def string_field_def
  string_omitempty_def int_field_def int_omitempty_def bool_omitempty_def
  float_omitempty_def

lemma Itoa_0: "Itoa 0 = ''0''"
  by (simp add: Itoa_def FormatUint.simps digit_char_def)

lemma ParseInt_0: "ParseInt ''0'' = Inr 0"
  by (simp add: ParseInt_def ParseUint_def digit_val_def)

lemma steps_append: "steps (fs @ gs) = andThen (steps fs) (steps gs)"
proof (induction fs)
  case Nil
  show ?case by (rule ext) (simp add: andThen_def)
next
  case (Cons f fs)
  show ?case
    by (rule ext) (simp add: Cons andThen_def split: prod.splits option.splits)
qed

subsection \<open>Steps that write well-formed content\<close>

















text \<open>The add-ons: each is written whole, one after the other, inside their parent.\<close>

lemma add_on_total:
  "encode_SubscriptionAddOn a e = (e @ fst (encode_SubscriptionAddOn a []), None)"
  by (simp add: encode_SubscriptionAddOn_def enc_defs)

lemma add_ons_steps:
  "steps (map encode_SubscriptionAddOn xs) e =
     (e @ concat (map (\<lambda>a. fst (encode_SubscriptionAddOn a [])) xs), None)"
proof (induction xs arbitrary: e)
  case Nil
  show ?case by simp
next
  case (Cons a xs)
  show ?case
    by (simp add: andThen_def add_on_total [of a e] Cons)
qed

lemma encode_add_ons_eq:
  "encode_add_ons xs e =
     (e @ StartTok ''subscription_add_ons'' [] #
        concat (map (\<lambda>a. fst (encode_SubscriptionAddOn a [])) xs) @
        [EndTok ''subscription_add_ons''], None)"
  by (simp add: encode_add_ons_def elem_def steps_append andThen_def writeStart_def named_def
      writeEnd_def add_ons_steps)


subsection \<open>The tags a step can open\<close>

































subsection \<open>NullInt\<close>

text \<open>
  Claim C2, as amended. \<^verbatim>\<open>NullInt.UnmarshalXML\<close> never returns an error. When the text of the
  element is a well-formed integer (\<open>ParseInt\<close> accepts it) the receiver becomes the parsed
  value with \<open>Valid = true\<close>; when the text is malformed for an integer the receiver is
  left as it was, and the error is dropped.
\<close>

theorem NullInt_UnmarshalXML_never_fails:
  "snd (NullInt_UnmarshalXML n el) = None \<and>
   fst (NullInt_UnmarshalXML n el) =
     (case ParseInt (el_text el) of Inr v \<Rightarrow> NewInt v | Inl err \<Rightarrow> n)"
  by (simp add: NullInt_UnmarshalXML_def DecodeElement_int_def NewInt_def split: sum.splits)

text \<open>
  The claim as it was stated (an error is returned if and only if the content is malformed)
  fails on \<^verbatim>\<open><net_terms type="integer">abc</net_terms>\<close>: the text is rejected by
  \<open>ParseInt\<close>, and the method returns no error and leaves the receiver unset.
\<close>

theorem NullInt_UnmarshalXML_malformed_no_error:
  "ParseInt ''abc'' = Inl (ErrSyntax ''abc'') \<and>
   NullInt_UnmarshalXML NullInt_zero
     (Element ''net_terms'' [(''type'', ''integer'')] [Chars ''abc'']) = (NullInt_zero, None)"
  by (simp add: NullInt_UnmarshalXML_def DecodeElement_int_def el_text_def ParseInt_def
      ParseUint_def digit_val_def)

text \<open>
  Claim C3. For every \<open>NullInt\<close> \<open>n\<close>, \<^verbatim>\<open>NullInt.MarshalXML\<close> writes the element (start tag,
  the decimal text of \<open>n.Int\<close>, end tag) when \<open>n.Valid\<close> is true, whatever \<open>n.Int\<close> is, and
  writes nothing when \<open>n.Valid\<close> is false, whatever \<open>n.Int\<close> is. The start element is the
  one \<^verbatim>\<open>encoding/xml\<close> passes, which is named after the field's tag.
\<close>

theorem NullInt_MarshalXML_emits_iff_Valid:
  "se_Name start \<noteq> [] \<Longrightarrow>
   fst (NullInt_MarshalXML n start e) =
     (if ni_Valid n
      then e @ tokens_of (Element (se_Name start) (filter (\<lambda>a. fst a \<noteq> []) (se_Attr start))
                            [Chars (Itoa (ni_Int n))])
      else e)
   \<and> (fst (NullInt_MarshalXML n start e) = e) = (\<not> ni_Valid n)"
  by (simp add: NullInt_MarshalXML_def enc_defs)

theorem NullInt_MarshalXML_emits_iff_Valid_witness:
  "fst (NullInt_MarshalXML (NewInt 0) (named ''net_terms'') []) =
     [StartTok ''net_terms'' [], CharTok ''0'', EndTok ''net_terms'']
   \<and> fst (NullInt_MarshalXML \<lparr>ni_Int = 7, ni_Valid = False\<rparr> (named ''net_terms'') []) = []"
  using NullInt_MarshalXML_emits_iff_Valid [of "named ''net_terms''" "NewInt 0" "[]"]
    NullInt_MarshalXML_emits_iff_Valid
      [of "named ''net_terms''" "\<lparr>ni_Int = 7, ni_Valid = False\<rparr>" "[]"]
  by (simp add: named_def NewInt_def Itoa_0)

subsection \<open>Decimal text\<close>

text \<open>
  \<open>ParseInt\<close> reads back what \<open>Itoa\<close> writes, for every value of a 64-bit \<^verbatim>\<open>int\<close>: every
  valid \<open>NullInt\<close> survives the round trip through its element. The empty element, which
  the doc comment of \<^verbatim>\<open>NullInt.UnmarshalXML\<close> mentions, leaves the receiver unset.
\<close>

lemma digit_cases:
  "d < 10 \<Longrightarrow>
   d = 0 \<or> d = 1 \<or> d = 2 \<or> d = 3 \<or> d = 4 \<or> d = 5 \<or> d = 6 \<or> d = 7 \<or> d = 8 \<or> d = (9::nat)"
  by arith

lemma digit_val_digit_char:
  assumes "d < 10"
  shows "digit_val (digit_char d) = Some d"
  using digit_cases [OF assms]
  by (elim disjE; simp add: digit_val_def digit_char_def)

lemma digit_char_not_sign: "digit_char d \<noteq> CHR ''+'' \<and> digit_char d \<noteq> CHR ''-''"
  by (simp add: digit_char_def)

lemma parse_digits_snoc:
  "d < 10 \<Longrightarrow>
   parse_digits s0 acc (xs @ [digit_char d]) =
     (case parse_digits s0 acc xs of
        Inl err \<Rightarrow> Inl err
      | Inr m \<Rightarrow> if m * 10 + d \<ge> 2 ^ 64 then Inl (ErrRange s0) else Inr (m * 10 + d))"
  by (induction xs arbitrary: acc)
     (simp_all add: digit_val_digit_char Let_def split: option.splits)

lemma parse_digits_FormatUint: "n < 2 ^ 64 \<Longrightarrow> parse_digits s0 0 (FormatUint n) = Inr n"
proof (induction n rule: FormatUint.induct)
  case (1 n)
  show ?case
  proof (cases "n < 10")
    case True
    then have "FormatUint n = [digit_char n]" by (subst FormatUint.simps) simp
    with True "1.prems" show ?thesis by (simp add: digit_val_digit_char)
  next
    case False
    then have eq: "FormatUint n = FormatUint (n div 10) @ [digit_char (n mod 10)]"
      by (subst FormatUint.simps) simp
    from "1.prems" have "n div 10 < 2 ^ 64"
      using div_le_dividend [of n 10] by linarith
    with "1.IH" False have "parse_digits s0 0 (FormatUint (n div 10)) = Inr (n div 10)"
      by simp
    with "1.prems" show ?thesis unfolding eq by (simp add: parse_digits_snoc)
  qed
qed

lemma FormatUint_hd:
  "FormatUint n \<noteq> [] \<and> hd (FormatUint n) \<noteq> CHR ''+'' \<and> hd (FormatUint n) \<noteq> CHR ''-''"
proof (induction n rule: FormatUint.induct)
  case (1 n)
  show ?case
  proof (cases "n < 10")
    case True
    then have "FormatUint n = [digit_char n]" by (subst FormatUint.simps) simp
    then show ?thesis by (simp add: digit_char_not_sign)
  next
    case False
    then have eq: "FormatUint n = FormatUint (n div 10) @ [digit_char (n mod 10)]"
      by (subst FormatUint.simps) simp
    from "1.IH" False show ?thesis unfolding eq by simp
  qed
qed

lemma ParseInt_Itoa: "- (2 ^ 63) \<le> i \<Longrightarrow> i < 2 ^ 63 \<Longrightarrow> ParseInt (Itoa i) = Inr i"
proof (cases "i < 0")
  case False
  assume "i < 2 ^ 63"
  with False have lt: "nat i < 2 ^ 63" by (simp add: nat_less_iff)
  then have "nat i < 2 ^ 64" by simp
  from parse_digits_FormatUint [OF this] FormatUint_hd [of "nat i"] False lt
  show ?thesis
    by (simp add: ParseInt_def Itoa_def ParseUint_def)
next
  case True
  assume "- (2 ^ 63) \<le> i"
  with True have le: "nat (- i) \<le> 2 ^ 63" by (simp add: nat_le_iff)
  then have "nat (- i) < 2 ^ 64" by simp
  from parse_digits_FormatUint [OF this] FormatUint_hd [of "nat (- i)"] True le
  show ?thesis
    by (simp add: ParseInt_def Itoa_def ParseUint_def)
qed

lemma NullInt_round_trip:
  "- (2 ^ 63) \<le> i \<Longrightarrow> i < 2 ^ 63 \<Longrightarrow>
   NullInt_UnmarshalXML n (Element nm as [Chars (Itoa i)]) = (NewInt i, None)"
  by (simp add: NullInt_UnmarshalXML_def DecodeElement_int_def el_text_def ParseInt_Itoa
      NewInt_def)

lemma NullInt_empty_element:
  "NullInt_UnmarshalXML NullInt_zero (Element ''net_terms'' [(''nil'', ''nil'')] []) =
     (NullInt_zero, None)"
  by (simp add: NullInt_UnmarshalXML_def DecodeElement_int_def el_text_def ParseInt_def)

subsection \<open>The explicit zero\<close>

lemma NullInt_decode_zero:
  "NullInt_UnmarshalXML n (Element nm as [Chars ''0'']) = (NewInt 0, None)"
  by (simp add: NullInt_UnmarshalXML_def DecodeElement_int_def el_text_def ParseInt_0 NewInt_def)

lemma Subscription_field_NetTerms:
  "Subscription_field env c v = Inr v' \<Longrightarrow> el_name c \<noteq> ''net_terms'' \<Longrightarrow>
   s_NetTerms v' = s_NetTerms v"
  by (auto simp: Subscription_field_def then_set_def split: if_splits sum.splits)

lemma decode_children_NetTerms:
  "decode_children (Subscription_field env) cs v = Inr v' \<Longrightarrow>
   ''net_terms'' \<notin> set (child_names cs) \<Longrightarrow> s_NetTerms v' = s_NetTerms v"
proof (induction cs arbitrary: v rule: child_names.induct)
  case 1
  then show ?case by simp
next
  case (2 s cs)
  then show ?case by simp
next
  case (3 e cs)
  from "3.prems"(1) obtain v1 where
    v1: "Subscription_field env e v = Inr v1" and
    rest: "decode_children (Subscription_field env) cs v1 = Inr v'"
    by (auto split: sum.splits)
  from "3.prems"(2) have ne: "el_name e \<noteq> ''net_terms''"
    and nin: "''net_terms'' \<notin> set (child_names cs)"
    by auto
  from "3.IH" [OF rest nin] Subscription_field_NetTerms [OF v1 ne] show ?case by simp
qed

lemma Subscription_absent_net_terms:
  assumes "Subscription_UnmarshalXML env s el = (s', None)"
    and "''net_terms'' \<notin> set (child_names (el_content el))"
  shows "s_NetTerms s' = NullInt_zero"
proof -
  from assms(1) have "decode_v env el = Inr s'"
    by (auto simp: Subscription_UnmarshalXML_def split: sum.splits)
  then have "decode_children (Subscription_field env) (el_content el)
          (Subscription_zero\<lparr>s_XMLName := el_name el\<rparr>) = Inr s'"
    by (auto simp: decode_v_def expect_name_def split: if_splits)
  from decode_children_NetTerms [OF this assms(2)] show ?thesis
    by (simp add: Subscription_zero_def)
qed

text \<open>
  The scenario of the specification: a subscription payload with
  \<^verbatim>\<open><net_terms type="integer">0</net_terms>\<close>, and one without the element.
\<close>

lemma Subscription_net_terms_zero_present:
  "Subscription_UnmarshalXML env s
     (Element ''subscription'' []
        [Child (Element ''net_terms'' [(''type'', ''integer'')] [Chars ''0''])])
   = (Subscription_zero\<lparr>s_XMLName := ''subscription'', s_NetTerms := NewInt 0\<rparr>, None)"
  by (simp add: Subscription_UnmarshalXML_def decode_v_def expect_name_def
      Subscription_field_def then_set_def unmarshaler_def NullInt_decode_zero)

lemma Subscription_net_terms_absent:
  "Subscription_UnmarshalXML env s (Element ''subscription'' [] [])
   = (Subscription_zero\<lparr>s_XMLName := ''subscription''\<rparr>, None)"
  by (simp add: Subscription_UnmarshalXML_def decode_v_def expect_name_def)

text \<open>
  Claim C4. Encoding \<open>NewInt 0\<close> writes the element with the text \<open>0\<close>; decoding an element
  with that text, whatever its name and attributes, gives \<open>Valid = true\<close> and \<open>Int = 0\<close>;
  and a subscription payload that decodes and has no \<^verbatim>\<open>net_terms\<close> child leaves
  \<open>NetTerms.Valid\<close> false.
\<close>

theorem explicit_zero_round_trip:
  "(se_Name start \<noteq> [] \<longrightarrow>
      fst (NullInt_MarshalXML (NewInt 0) start e) =
        e @ tokens_of (Element (se_Name start) (filter (\<lambda>a. fst a \<noteq> []) (se_Attr start))
                         [Chars ''0'']))
   \<and> NullInt_UnmarshalXML n (Element nm as [Chars ''0'']) = (\<lparr>ni_Int = 0, ni_Valid = True\<rparr>, None)
   \<and> (''net_terms'' \<notin> set (child_names (el_content el)) \<longrightarrow>
        Subscription_UnmarshalXML env s el = (s', None) \<longrightarrow>
        \<not> ni_Valid (s_NetTerms s'))"
  using Subscription_absent_net_terms [of env s el s']
  by (auto simp add: NullInt_decode_zero NullInt_MarshalXML_def NewInt_def Itoa_0
      EncodeElement_int_def EncodeElement_text_def andThen_def writeStart_def writeText_def
      writeEnd_def NullInt_zero_def)

theorem explicit_zero_round_trip_witness:
  "fst (NullInt_MarshalXML (NewInt 0) (named ''net_terms'') []) =
      tokens_of (Element ''net_terms'' [] [Chars ''0''])
   \<and> NullInt_UnmarshalXML NullInt_zero
        (Element ''net_terms'' [(''type'', ''integer'')] [Chars ''0''])
       = (\<lparr>ni_Int = 0, ni_Valid = True\<rparr>, None)
   \<and> Subscription_UnmarshalXML example_env Subscription_zero (Element ''subscription'' [] [])
       = (Subscription_zero\<lparr>s_XMLName := ''subscription''\<rparr>, None)
   \<and> \<not> ni_Valid (s_NetTerms (Subscription_zero\<lparr>s_XMLName := ''subscription''\<rparr>))"
  using explicit_zero_round_trip
    [where start = "named ''net_terms''" and e = "[]" and n = NullInt_zero
       and nm = "''net_terms''" and as = "[(''type'', ''integer'')]"
       and el = "Element ''subscription'' [] []" and env = example_env
       and s = Subscription_zero and s' = "Subscription_zero\<lparr>s_XMLName := ''subscription''\<rparr>"]
  by (simp add: named_def Subscription_net_terms_absent)

subsection \<open>NewSubscription\<close>

text \<open>The first case of \<^verbatim>\<open>TestSubscriptions_NewSubscription_Encoding\<close>: the zero value.\<close>

lemma NewSubscription_zero_encoding:
  "Marshal (encode_NewSubscription env NewSubscription_zero) =
     Inr ''<subscription><plan_code></plan_code><account></account><currency></currency></subscription>''"
  by (simp add: Marshal_def encode_NewSubscription_def NewSubscription_zero_def enc_defs
      encode_Account_def Account_zero_def encode_add_ons_ptr_def NullTime_MarshalXML_def
      NullTime_zero_def NullInt_MarshalXML_def NullInt_zero_def render_def EscapeText_def)

text \<open>
  Claim C6. A \<^verbatim>\<open>NewSubscription\<close> with only the plan code \<open>gold\<close>, the account code \<open>123\<close>
  and an empty currency is encoded as exactly these bytes: the elements in the order of the
  declaration, the currency written although empty, every other field left out.
\<close>

theorem NewSubscription_gold_encoding:
  "Marshal (encode_NewSubscription env
     (NewSubscription_zero
        \<lparr>ns_PlanCode := ''gold'', ns_Account := \<lparr>ac_Code = ''123''\<rparr>, ns_Currency := []\<rparr>))
   = Inr ''<subscription><plan_code>gold</plan_code><account><account_code>123</account_code></account><currency></currency></subscription>''"
  by (simp add: Marshal_def encode_NewSubscription_def NewSubscription_zero_def enc_defs
      encode_Account_def encode_add_ons_ptr_def NullTime_MarshalXML_def NullTime_zero_def
      NullInt_MarshalXML_def NullInt_zero_def render_def EscapeText_def)


subsection \<open>Fields read from links\<close>






subsection \<open>Encoding and its errors\<close>








subsection \<open>Transactions.Less\<close>

lemma Before_instant: "normal a \<Longrightarrow> normal b \<Longrightarrow> Before a b = (instant a < instant b)"
proof -
  assume a: "normal a" and b: "normal b"
  show ?thesis
  proof (cases "t_sec a < t_sec b")
    case True
    then have "t_sec a + 1 \<le> t_sec b" by simp
    then have "(t_sec a + 1) * 1000000000 \<le> t_sec b * 1000000000" by simp
    with a b True show ?thesis by (simp add: Before_def instant_def normal_def algebra_simps)
  next
    case False
    show ?thesis
    proof (cases "t_sec a = t_sec b")
      case True
      then show ?thesis by (simp add: Before_def instant_def)
    next
      case neq: False
      with False have "t_sec b + 1 \<le> t_sec a" by simp
      then have "(t_sec b + 1) * 1000000000 \<le> t_sec a * 1000000000" by simp
      with a b False neq show ?thesis
        by (simp add: Before_def instant_def normal_def algebra_simps)
    qed
  qed
qed

text \<open>
  Claim C9. For indices \<open>i\<close> and \<open>j\<close> of the slice: when both \<open>CreatedAt\<close> are set, \<^verbatim>\<open>Less\<close>
  returns whether the first time is \<^verbatim>\<open>Before\<close> the second, which for times as \<^verbatim>\<open>time.Time\<close>
  keeps them is: its instant is strictly smaller. When one of them is unset, \<^verbatim>\<open>Less\<close>
  dereferences a nil pointer: nothing guards it.
\<close>

theorem Less_iff_CreatedAt_before:
  assumes "0 \<le> i" "i < Len s" "0 \<le> j" "j < Len s"
  shows "(\<forall>a b. nt_Time (tx_CreatedAt (s ! nat i)) = Some a \<longrightarrow>
            nt_Time (tx_CreatedAt (s ! nat j)) = Some b \<longrightarrow>
            Less s i j = Inr (Before a b) \<and>
            (normal a \<longrightarrow> normal b \<longrightarrow> Before a b = (instant a < instant b)))
       \<and> (nt_Time (tx_CreatedAt (s ! nat i)) = None \<or> nt_Time (tx_CreatedAt (s ! nat j)) = None \<longrightarrow>
            Less s i j = Inl NilPointerDereference)"
  using assms
  by (auto simp: Less_def index_def Len_def Before_instant split: option.splits)

theorem Less_iff_CreatedAt_before_witness:
  "Less [created_at 5, created_at 9, Transaction_zero] 0 1 = Inr True
   \<and> Less [created_at 5, created_at 9, Transaction_zero] 1 0 = Inr False
   \<and> Less [created_at 5, created_at 9, Transaction_zero] 0 0 = Inr False
   \<and> Less [created_at 5, created_at 9, Transaction_zero] 0 2 = Inl NilPointerDereference"
  using Less_iff_CreatedAt_before [of 0 "[created_at 5, created_at 9, Transaction_zero]" 1]
    Less_iff_CreatedAt_before [of 1 "[created_at 5, created_at 9, Transaction_zero]" 0]
    Less_iff_CreatedAt_before [of 0 "[created_at 5, created_at 9, Transaction_zero]" 0]
    Less_iff_CreatedAt_before [of 0 "[created_at 5, created_at 9, Transaction_zero]" 2]
  by (simp add: Len_def created_at_def NewTime_def Before_def Transaction_zero_def
      NullTime_zero_def)


subsection \<open>MakeUpdate\<close>

text \<open>The last case of \<^verbatim>\<open>TestSubscriptions_UpdateSubscription_Encoding\<close>.\<close>

lemma MakeUpdate_test_case:
  "Marshal (encode_UpdateSubscription (MakeUpdate
     (Subscription_zero
        \<lparr>s_SubscriptionAddOns :=
           [SubscriptionAddOn_zero
              \<lparr>ao_Code := ''extra_users'', ao_UnitAmountInCents := 1000, ao_Quantity := 2\<rparr>],
         s_PONumber := ''abc-123'', s_NetTerms := NewInt 23\<rparr>)))
   = Inr ''<subscription><net_terms>23</net_terms><subscription_add_ons><subscription_add_on><add_on_code>extra_users</add_on_code><unit_amount_in_cents>1000</unit_amount_in_cents><quantity>2</quantity></subscription_add_on></subscription_add_ons></subscription>''"
  by (simp add: Marshal_def encode_UpdateSubscription_def MakeUpdate_def
      UpdateSubscription_zero_def Subscription_zero_def SubscriptionAddOn_zero_def enc_defs
      encode_add_ons_ptr_def encode_add_ons_def encode_SubscriptionAddOn_def
      NullInt_MarshalXML_def NewInt_def render_def EscapeText_def Itoa_def FormatUint.simps
      digit_char_def)

text \<open>
  Claim C10. \<open>MakeUpdate s\<close> has the \<open>NetTerms\<close> of \<open>s\<close>, a \<open>SubscriptionAddOns\<close> that points to
  the add-ons of \<open>s\<close>, and the zero value in every other field; its encoding is the
  \<^verbatim>\<open>subscription\<close> element with the net terms (when they are set) and the add-ons, and
  nothing else.
\<close>

theorem MakeUpdate_keeps_NetTerms_and_AddOns:
  "MakeUpdate s =
     \<lparr>us_XMLName = [], us_Timeframe = [], us_PlanCode = [], us_Quantity = 0,
      us_UnitAmountInCents = 0, us_CollectionMethod = [], us_NetTerms = s_NetTerms s,
      us_PONumber = [], us_SubscriptionAddOns = Some (s_SubscriptionAddOns s)\<rparr>
   \<and> encode_UpdateSubscription (MakeUpdate s) e =
       (e @ StartTok ''subscription'' [] #
          (if ni_Valid (s_NetTerms s)
           then [StartTok ''net_terms'' [], CharTok (Itoa (ni_Int (s_NetTerms s))),
                 EndTok ''net_terms'']
           else []) @
          StartTok ''subscription_add_ons'' [] #
          concat (map (\<lambda>a. fst (encode_SubscriptionAddOn a [])) (s_SubscriptionAddOns s)) @
          [EndTok ''subscription_add_ons'', EndTok ''subscription''], None)"
  by (simp add: MakeUpdate_def UpdateSubscription_zero_def encode_UpdateSubscription_def
      enc_defs encode_add_ons_ptr_def encode_add_ons_eq NullInt_MarshalXML_def)

subsection \<open>Parse\<close>

lemma unrecognized_not_registered: "''totally_unrecognized_event'' \<notin> set registered_names"
  by (simp add: registered_names_def notification_constants)

text \<open>
  Claim C5. For every payload whose outer tag is not one of the named constants, \<^verbatim>\<open>Parse\<close>
  returns a nil response and an \<^verbatim>\<open>ErrUnknownNotification\<close> whose \<^verbatim>\<open>Name()\<close> is the tag.
  (\<open>Parse\<close> is a total function: it returns, it does not panic.)
\<close>

theorem Parse_unknown_tag:
  "n \<notin> set registered_names \<Longrightarrow>
   Parse env (Payload (Element n as cs)) = (None, Some (Unknown (ErrUnknownNotification n)))
   \<and> Name (ErrUnknownNotification n) = n"
  by (simp add: Parse_def dispatch_def registered_names_def)

theorem Parse_unknown_tag_witness:
  "Parse example_env (Payload (Element ''totally_unrecognized_event'' [] [])) =
     (None, Some (Unknown (ErrUnknownNotification ''totally_unrecognized_event'')))
   \<and> Name (ErrUnknownNotification ''totally_unrecognized_event'') = ''totally_unrecognized_event''"
  using Parse_unknown_tag [OF unrecognized_not_registered, of example_env "[]" "[]"] by simp

text \<open>
  The minimal payloads of the named constants. All but two of them are dispatched to the
  notification type that corresponds to them.
\<close>

lemma Parse_minimal_payload:
  "n \<in> set registered_names \<Longrightarrow> n \<noteq> ReactivedAccount \<Longrightarrow> n \<noteq> ReactivatedSubscription \<Longrightarrow>
   \<exists>d. Parse env (Payload (Element n [] [])) = (Some \<lparr>Message = n, Data = d\<rparr>, None)
      \<and> corresponding n d"
  unfolding registered_names_def
  by (simp, elim disjE;
      simp add: Parse_def dispatch_def notification_constants corresponding_def then_set_def
        Unmarshal_account_def Unmarshal_account_subscription_def Unmarshal_account_invoice_def
        Unmarshal_account_transaction_def Unmarshal_account_shipping_def Unmarshal_dunning_def)

text \<open>
  The case \<^verbatim>\<open>ReactivatedSubscription\<close> of the switch chooses
  \<^verbatim>\<open>ReactivatedAccountNotification\<close>, the type of the constant \<^verbatim>\<open>ReactivedAccount\<close>.
\<close>

lemma Parse_ReactivatedSubscription:
  "Parse env (Payload (Element ReactivatedSubscription [] [])) =
     (Some \<lparr>Message = ''reactivated_subcription_notification'',
            Data = ReactivatedAccountNotification wAccount_zero\<rparr>, None)
   \<and> \<not> corresponding ReactivatedSubscription (ReactivatedAccountNotification wAccount_zero)"
  by (simp add: Parse_def dispatch_def notification_constants Unmarshal_account_def
      then_set_def corresponding_def)

text \<open>
  Claim C1 fails on the code. \<^verbatim>\<open>ReactivedAccount\<close> is one of the named constants, and the
  switch has no case for it: on the minimal payload
  \<^verbatim>\<open><reactivated_account_notification></reactivated_account_notification>\<close> \<^verbatim>\<open>Parse\<close>
  returns a nil response and an \<^verbatim>\<open>ErrUnknownNotification\<close>.
\<close>

theorem Parse_ReactivedAccount_unknown:
  "ReactivedAccount \<in> set registered_names \<and>
   Parse env (Payload (Element ReactivedAccount [] [])) =
     (None, Some (Unknown (ErrUnknownNotification ''reactivated_account_notification'')))"
  by (simp add: Parse_def dispatch_def registered_names_def notification_constants)


end
